theory Spec2Isabelle
  imports Main
begin

section \<open>Go values used by the handlers\<close>

text \<open>
  Go's \<^verbatim>\<open>int\<close> is taken as 64 bits wide (the build targets linux/amd64) and
  \<^verbatim>\<open>int32\<close> as 32 bits; both are modelled as \<open>int\<close> with the range checks and
  the wrap-around of the conversion \<^verbatim>\<open>int32(x)\<close> written out.
  A \<^verbatim>\<open>time.Time\<close> is the offset from Go's zero instant, so \<^verbatim>\<open>IsZero\<close> is
  equality with 0.
\<close>

type_synonym time = int

definition IsZero :: "time \<Rightarrow> bool" where
  "IsZero t = (t = 0)"

definition int32 :: "int \<Rightarrow> int" where
  "int32 n = (n + 2147483648) mod 4294967296 - 2147483648"

text \<open>
  Errors a store call can return: \<^verbatim>\<open>sql.ErrNoRows\<close>, a \<^verbatim>\<open>*pq.Error\<close> with its
  SQLSTATE code and constraint name, any other error, and an error wrapping another
  one. \<^verbatim>\<open>errors.As\<close> looks through wrappers, a type assertion
  \<^verbatim>\<open>err.(*pq.Error)\<close> and the comparison \<^verbatim>\<open>err == sql.ErrNoRows\<close> do not.
\<close>

datatype go_error =
    ErrNoRows
  | PqError string string
  | OtherError string
  | Wrapped go_error

fun errors_As :: "go_error \<Rightarrow> (string \<times> string) option" where
  "errors_As (PqError code constraint) = Some (code, constraint)"
| "errors_As (Wrapped e) = errors_As e"
| "errors_As ErrNoRows = None"
| "errors_As (OtherError m) = None"

fun assert_pq :: "go_error \<Rightarrow> (string \<times> string) option" where
  "assert_pq (PqError code constraint) = Some (code, constraint)"
| "assert_pq e = None"

text \<open>
  A Go slice is nil or holds elements; \<^verbatim>\<open>append\<close> to either gives a non-nil slice,
  and ranging over nil visits nothing.
\<close>

datatype 'a slice = NilSlice | Slice "'a list"

fun elems :: "'a slice \<Rightarrow> 'a list" where
  "elems NilSlice = []"
| "elems (Slice xs) = xs"

fun append :: "'a slice \<Rightarrow> 'a \<Rightarrow> 'a slice" where
  "append NilSlice x = Slice [x]"
| "append (Slice xs) x = Slice (xs @ [x])"

text \<open>\<^verbatim>\<open>sql.NullString.String\<close>, \<^verbatim>\<open>sql.NullInt32.Int32\<close> and \<^verbatim>\<open>sql.NullTime.Time\<close>
  hold the zero value when the column is NULL.\<close>

definition NullString_String :: "string option \<Rightarrow> string" where
  "NullString_String n = (case n of None \<Rightarrow> [] | Some s \<Rightarrow> s)"

definition NullInt_value :: "int option \<Rightarrow> int" where
  "NullInt_value n = (case n of None \<Rightarrow> 0 | Some i \<Rightarrow> i)"

definition NullTime_Time :: "time option \<Rightarrow> time" where
  "NullTime_Time n = (case n of None \<Rightarrow> 0 | Some t \<Rightarrow> t)"

subsection \<open>JSON values and responses\<close>

text \<open>
  What \<^verbatim>\<open>encoding/json\<close> writes is kept as a tree: a nil slice encodes as
  \<^verbatim>\<open>null\<close>, a non-nil one as an array, a struct as an object with the keys of its
  \<^verbatim>\<open>json\<close> tags in field order.
\<close>

datatype json =
    JNull
  | JNum int
  | JStr string
  | JTime time
  | JArr "json list"
  | JObj "(string \<times> json) list"

definition json_slice :: "json slice \<Rightarrow> json" where
  "json_slice s = (case s of NilSlice \<Rightarrow> JNull | Slice xs \<Rightarrow> JArr xs)"

datatype body = NoBody | Text string | Json json

type_synonym response = "nat \<times> body"

definition StatusOK :: nat where "StatusOK = 200"
definition StatusCreated :: nat where "StatusCreated = 201"
definition StatusNoContent :: nat where "StatusNoContent = 204"
definition StatusBadRequest :: nat where "StatusBadRequest = 400"
definition StatusNotFound :: nat where "StatusNotFound = 404"
definition StatusMethodNotAllowed :: nat where "StatusMethodNotAllowed = 405"
definition StatusConflict :: nat where "StatusConflict = 409"
definition StatusInternalServerError :: nat where "StatusInternalServerError = 500"

definition MethodGet :: string where "MethodGet = ''GET''"
definition MethodPost :: string where "MethodPost = ''POST''"
definition MethodPatch :: string where "MethodPatch = ''PATCH''"
definition MethodDelete :: string where "MethodDelete = ''DELETE''"

definition InternalServerErrorMsg :: string where
  "InternalServerErrorMsg = ''Internal server error''"

definition MethodNotAllowedMsg :: string where
  "MethodNotAllowedMsg = ''Method not allowed''"

text \<open>\<^verbatim>\<open>http.Error(w, msg, code)\<close> answers with the status and the message as plain
  text; \<^verbatim>\<open>w.WriteHeader(code)\<close> alone answers with an empty body.\<close>

definition httpError :: "string \<Rightarrow> nat \<Rightarrow> response" where
  "httpError msg code = (code, Text msg)"

definition WriteHeader :: "nat \<Rightarrow> response" where
  "WriteHeader code = (code, NoBody)"

definition writeServerResponse :: "nat \<Rightarrow> json \<Rightarrow> response" where
  "writeServerResponse statusCode data = (statusCode, Json data)"

text \<open>\<^verbatim>\<open>writeInternalServerError(w, err)\<close> logs \<open>err\<close> and answers 500; the log is not
  modelled, so the error is no argument here.\<close>

definition writeInternalServerError :: response where
  "writeInternalServerError = httpError InternalServerErrorMsg StatusInternalServerError"

definition writeServerParseError :: response where
  "writeServerParseError =
     httpError ''An error occurred while parsing the input JSON'' StatusBadRequest"

subsection \<open>strings.Split, strconv.Atoi, strings.TrimSpace\<close>

text \<open>\<^verbatim>\<open>strings.Split(s, "/")\<close>: the pieces between the separators, one more than
  there are separators.\<close>

fun Split :: "string \<Rightarrow> char \<Rightarrow> string list" where
  "Split [] sep = [[]]"
| "Split (c # cs) sep =
     (if c = sep then [] # Split cs sep
      else (case Split cs sep of [] \<Rightarrow> [[c]] | p # ps \<Rightarrow> (c # p) # ps))"

definition isDigit :: "char \<Rightarrow> bool" where
  "isDigit c = (48 \<le> (of_char c :: nat) \<and> (of_char c :: nat) \<le> 57)"

fun digitsValue :: "int \<Rightarrow> string \<Rightarrow> int" where
  "digitsValue n [] = n"
| "digitsValue n (c # cs) = digitsValue (n * 10 + (of_char c - 48)) cs"

text \<open>
  \<^verbatim>\<open>strconv.Atoi\<close>: an optional sign, then one or more decimal digits, and the value
  must fit a 64-bit int; anything else is an error (\<open>None\<close>).
\<close>

definition Atoi :: "string \<Rightarrow> int option" where
  "Atoi s =
     (let neg = (s \<noteq> [] \<and> hd s = CHR ''-'');
          ds = (if s \<noteq> [] \<and> (hd s = CHR ''-'' \<or> hd s = CHR ''+'') then tl s else s)
      in if ds = [] \<or> \<not> list_all isDigit ds then None
         else (let n = digitsValue 0 ds; v = (if neg then - n else n)
               in if - 9223372036854775808 \<le> v \<and> v \<le> 9223372036854775807
                  then Some v else None))"

text \<open>
  \<^verbatim>\<open>strings.TrimSpace\<close> removes, at both ends, every rune that \<^verbatim>\<open>unicode.IsSpace\<close>
  accepts. The string is its UTF-8 bytes: the six ASCII spaces, U+0085 and U+00A0
  (two bytes), and U+1680, U+2000 to U+200A, U+2028, U+2029, U+202F, U+205F and
  U+3000 (three bytes).
\<close>

definition asciiSpace :: "char \<Rightarrow> bool" where
  "asciiSpace c =
     (c = CHR 0x09 \<or> c = CHR 0x0A \<or> c = CHR 0x0B \<or> c = CHR 0x0C \<or> c = CHR 0x0D \<or> c = CHR 0x20)"

definition space2 :: "char \<Rightarrow> char \<Rightarrow> bool" where
  "space2 a b = (a = CHR 0xC2 \<and> (b = CHR 0x85 \<or> b = CHR 0xA0))"

definition space3 :: "char \<Rightarrow> char \<Rightarrow> char \<Rightarrow> bool" where
  "space3 a b c =
     ((a = CHR 0xE1 \<and> b = CHR 0x9A \<and> c = CHR 0x80) \<or>
      (a = CHR 0xE2 \<and> b = CHR 0x80 \<and>
         ((128 \<le> (of_char c :: nat) \<and> (of_char c :: nat) \<le> 138) \<or>
          c = CHR 0xA8 \<or> c = CHR 0xA9 \<or> c = CHR 0xAF)) \<or>
      (a = CHR 0xE2 \<and> b = CHR 0x81 \<and> c = CHR 0x9F) \<or>
      (a = CHR 0xE3 \<and> b = CHR 0x80 \<and> c = CHR 0x80))"

fun TrimLeft :: "string \<Rightarrow> string" where
  "TrimLeft [] = []"
| "TrimLeft [a] = (if asciiSpace a then [] else [a])"
| "TrimLeft [a, b] =
     (if asciiSpace a then TrimLeft [b] else if space2 a b then [] else [a, b])"
| "TrimLeft (a # b # c # r) =
     (if asciiSpace a then TrimLeft (b # c # r)
      else if space2 a b then TrimLeft (c # r)
      else if space3 a b c then TrimLeft r
      else a # b # c # r)"

text \<open>From the right the bytes of a rune come in reverse order.\<close>

fun TrimLeftRev :: "string \<Rightarrow> string" where
  "TrimLeftRev [] = []"
| "TrimLeftRev [a] = (if asciiSpace a then [] else [a])"
| "TrimLeftRev [b, a] =
     (if asciiSpace b then TrimLeftRev [a] else if space2 a b then [] else [b, a])"
| "TrimLeftRev (c # b # a # r) =
     (if asciiSpace c then TrimLeftRev (b # a # r)
      else if space2 b c then TrimLeftRev (a # r)
      else if space3 a b c then TrimLeftRev r
      else c # b # a # r)"

definition TrimSpace :: "string \<Rightarrow> string" where
  "TrimSpace s = rev (TrimLeftRev (rev (TrimLeft s)))"

text \<open>
  \<^verbatim>\<open>utils.ExtractTrailingID\<close>: the last piece of the path split at \<^verbatim>\<open>/\<close>, parsed by
  \<^verbatim>\<open>Atoi\<close>.
\<close>

definition ExtractTrailingID :: "string \<Rightarrow> int option" where
  "ExtractTrailingID path = (let parts = Split path (CHR ''/''); lastPart = last parts in Atoi lastPart)"

section \<open>The rows the store returns\<close>

text \<open>
  The structs of package \<^verbatim>\<open>database\<close> are generated by sqlc from the schema and
  the queries; the handlers read the fields below. The columns \<^verbatim>\<open>created_at\<close> and
  \<^verbatim>\<open>updated_at\<close> are read by no handler and are left out.
\<close>

record Customer =
  Customer_ID :: int
  Customer_FirstName :: string
  Customer_LastName :: string

record Product =
  Product_ID :: int
  Product_Name :: string
  Product_Description :: "string option"
  Product_Price :: string
  Product_AvailableItems :: int

record Invoice =
  Invoice_ID :: int
  Invoice_InvoiceNumber :: string
  Invoice_InvoiceDate :: time
  Invoice_CustomerID :: int

record InvoiceItem =
  InvoiceItem_ID :: int
  InvoiceItem_InvoiceID :: int
  InvoiceItem_ProductID :: int
  InvoiceItem_Count :: int

record ListProductsFromInvoiceRow =
  Row_ID :: int
  Row_Name :: string
  Row_Description :: "string option"
  Row_Price :: string
  Row_Count :: int
  Row_Sum :: string

record UpdateInvoiceRow =
  Upd_Result :: string
  Upd_ID :: "int option"
  Upd_InvoiceNumber :: "string option"
  Upd_InvoiceDate :: "time option"
  Upd_CustomerID :: "int option"

section \<open>The relational store: schema.sql and query.sql\<close>

text \<open>
  A table is the list of its rows. \<^verbatim>\<open>product.price\<close> is \<^verbatim>\<open>NUMERIC(10, 2)\<close>, kept
  as the number of hundredths. \<^verbatim>\<open>invoice_item.id\<close> and \<^verbatim>\<open>invoice.id\<close> are \<^verbatim>\<open>SERIAL\<close>:
  the default is the next value of a sequence, which an \<^verbatim>\<open>INSERT\<close> draws whether or
  not it succeeds. No query supplies an id, so a sequence is ahead of the ids of its
  table and the primary keys are not violated.
\<close>

record product_row =
  prow_id :: int
  prow_name :: string
  prow_description :: "string option"
  prow_price :: int
  prow_available_items :: int

record store =
  customer_table :: "Customer list"
  product_table :: "product_row list"
  invoice_table :: "Invoice list"
  invoice_item_table :: "InvoiceItem list"
  invoice_item_id_seq :: int
  invoice_id_seq :: int

text \<open>The text of a \<^verbatim>\<open>NUMERIC(10, 2)\<close> value, as the driver hands it to Go.\<close>

definition digitChar :: "nat \<Rightarrow> char" where
  "digitChar d = char_of (48 + d)"

function showNat :: "nat \<Rightarrow> string" where
  "showNat n = (if n < 10 then [digitChar n] else showNat (n div 10) @ [digitChar (n mod 10)])"
  by pat_completeness auto
termination
  by (relation "measure id") auto

declare showNat.simps [simp del]

definition numericText :: "int \<Rightarrow> string" where
  "numericText h =
     (let a = nat \<bar>h\<bar> in
      (if h < 0 then ''-'' else []) @ showNat (a div 100) @ ''.'' @
      [digitChar (a mod 100 div 10), digitChar (a mod 10)])"

text \<open>\<^verbatim>\<open>CAST(x AS numeric(10,2))\<close> fails with SQLSTATE 22003 unless
  \<open>\<bar>x\<bar> < 10\<^sup>8\<close>, that is unless the hundredths are below \<open>10\<^sup>1\<^sup>0\<close>.\<close>

definition fitsNumeric10_2 :: "int \<Rightarrow> bool" where
  "fitsNumeric10_2 h = (\<bar>h\<bar> < 10000000000)"

definition scanProduct :: "product_row \<Rightarrow> Product" where
  "scanProduct r =
     \<lparr>Product_ID = prow_id r, Product_Name = prow_name r,
      Product_Description = prow_description r, Product_Price = numericText (prow_price r),
      Product_AvailableItems = prow_available_items r\<rparr>"

text \<open>A \<^verbatim>\<open>:many\<close> query of sqlc appends each row to a nil slice: no row leaves it
  nil, and there is no \<^verbatim>\<open>sql.ErrNoRows\<close>.\<close>

definition manyRows :: "'a list \<Rightarrow> 'a slice" where
  "manyRows xs = (if xs = [] then NilSlice else Slice xs)"

subsection \<open>List queries\<close>

text \<open>\<^verbatim>\<open>SELECT * FROM product ORDER BY id LIMIT 100\<close>, and the same for the other
  two tables.\<close>

definition ListProducts_sql :: "store \<Rightarrow> (go_error + Product slice) \<times> store" where
  "ListProducts_sql st =
     (Inr (manyRows (map scanProduct (take 100 (sort_key prow_id (product_table st))))), st)"

definition ListInvoices_sql :: "store \<Rightarrow> (go_error + Invoice slice) \<times> store" where
  "ListInvoices_sql st = (Inr (manyRows (take 100 (sort_key Invoice_ID (invoice_table st)))), st)"

definition ListCustomers_sql :: "store \<Rightarrow> (go_error + Customer slice) \<times> store" where
  "ListCustomers_sql st = (Inr (manyRows (take 100 (sort_key Customer_ID (customer_table st)))), st)"

subsection \<open>Delete queries\<close>

text \<open>
  One statement: a CTE tests existence, a second one deletes and returns the deleted
  rows, and the \<^verbatim>\<open>CASE\<close> picks the result text. The foreign keys of the schema have
  no \<^verbatim>\<open>ON DELETE\<close> action, so deleting a referenced row fails the whole statement
  with SQLSTATE 23503 and the name of the referencing constraint, and nothing changes.
\<close>

definition DeleteProduct_sql :: "int \<Rightarrow> store \<Rightarrow> (go_error + string) \<times> store" where
  "DeleteProduct_sql product_id st =
     (let product_exists = list_ex (\<lambda>r. prow_id r = product_id) (product_table st);
          delete_product = filter (\<lambda>r. prow_id r = product_id) (product_table st);
          st' = st\<lparr>product_table := filter (\<lambda>r. prow_id r \<noteq> product_id) (product_table st)\<rparr>
      in if delete_product \<noteq> [] \<and>
            list_ex (\<lambda>ii. InvoiceItem_ProductID ii = product_id) (invoice_item_table st)
         then (Inl (PqError ''23503'' ''invoice_item_product_id_fkey''), st)
         else if \<not> product_exists then (Inr ''product_not_found'', st')
         else if delete_product = [] then (Inr ''delete_failed'', st')
         else (Inr ''success'', st'))"

definition DeleteInvoice_sql :: "int \<Rightarrow> store \<Rightarrow> (go_error + string) \<times> store" where
  "DeleteInvoice_sql invoice_id st =
     (let invoice_exists = list_ex (\<lambda>r. Invoice_ID r = invoice_id) (invoice_table st);
          delete_invoice = filter (\<lambda>r. Invoice_ID r = invoice_id) (invoice_table st);
          st' = st\<lparr>invoice_table := filter (\<lambda>r. Invoice_ID r \<noteq> invoice_id) (invoice_table st)\<rparr>
      in if delete_invoice \<noteq> [] \<and>
            list_ex (\<lambda>ii. InvoiceItem_InvoiceID ii = invoice_id) (invoice_item_table st)
         then (Inl (PqError ''23503'' ''invoice_item_invoice_id_fkey''), st)
         else if \<not> invoice_exists then (Inr ''invoice_not_found'', st')
         else if delete_invoice = [] then (Inr ''delete_failed'', st')
         else (Inr ''success'', st'))"

definition DeleteCustomer_sql :: "int \<Rightarrow> store \<Rightarrow> (go_error + string) \<times> store" where
  "DeleteCustomer_sql customer_id st =
     (let customer_exists = list_ex (\<lambda>r. Customer_ID r = customer_id) (customer_table st);
          delete_customer = filter (\<lambda>r. Customer_ID r = customer_id) (customer_table st);
          st' = st\<lparr>customer_table := filter (\<lambda>r. Customer_ID r \<noteq> customer_id) (customer_table st)\<rparr>
      in if delete_customer \<noteq> [] \<and>
            list_ex (\<lambda>i. Invoice_CustomerID i = customer_id) (invoice_table st)
         then (Inl (PqError ''23503'' ''invoice_customer_id_fkey''), st)
         else if \<not> customer_exists then (Inr ''customer_not_found'', st')
         else if delete_customer = [] then (Inr ''delete_failed'', st')
         else (Inr ''success'', st'))"

definition DeleteProductFromInvoice_sql ::
  "int \<times> int \<Rightarrow> store \<Rightarrow> (go_error + string) \<times> store" where
  "DeleteProductFromInvoice_sql params st =
     (let hit = (\<lambda>ii. InvoiceItem_InvoiceID ii = fst params \<and> InvoiceItem_ProductID ii = snd params);
          invoice_item_exists = list_ex hit (invoice_item_table st);
          delete_invoice_item = filter hit (invoice_item_table st);
          st' = st\<lparr>invoice_item_table := filter (\<lambda>ii. \<not> hit ii) (invoice_item_table st)\<rparr>
      in if \<not> invoice_item_exists then (Inr ''invoice_item_not_found'', st')
         else if delete_invoice_item = [] then (Inr ''delete_failed'', st')
         else (Inr ''success'', st'))"

subsection \<open>Invoice items\<close>

text \<open>
  \<^verbatim>\<open>ListProductsFromInvoice\<close>: the join of \<^verbatim>\<open>invoice_item\<close> and \<^verbatim>\<open>product\<close> for one
  invoice id, ordered by product id, at most 100 rows. The query reads no row of
  table \<^verbatim>\<open>invoice\<close>. The cast of the sum is taken to fail the query when the sum of
  some joined row does not fit.
\<close>

definition joinedRows :: "int \<Rightarrow> store \<Rightarrow> (product_row \<times> InvoiceItem) list" where
  "joinedRows invoice_id st =
     concat (map (\<lambda>ii. map (\<lambda>p. (p, ii))
                          (filter (\<lambda>p. InvoiceItem_ProductID ii = prow_id p) (product_table st)))
                 (filter (\<lambda>ii. InvoiceItem_InvoiceID ii = invoice_id) (invoice_item_table st)))"

definition scanJoined :: "product_row \<times> InvoiceItem \<Rightarrow> ListProductsFromInvoiceRow" where
  "scanJoined r =
     \<lparr>Row_ID = prow_id (fst r), Row_Name = prow_name (fst r),
      Row_Description = prow_description (fst r), Row_Price = numericText (prow_price (fst r)),
      Row_Count = InvoiceItem_Count (snd r),
      Row_Sum = numericText (prow_price (fst r) * InvoiceItem_Count (snd r))\<rparr>"

definition ListProductsFromInvoice_sql ::
  "int \<Rightarrow> store \<Rightarrow> (go_error + ListProductsFromInvoiceRow slice) \<times> store" where
  "ListProductsFromInvoice_sql invoice_id st =
     (let rows = joinedRows invoice_id st
      in if list_ex (\<lambda>r. \<not> fitsNumeric10_2 (prow_price (fst r) * InvoiceItem_Count (snd r))) rows
         then (Inl (PqError ''22003'' []), st)
         else (Inr (manyRows (map scanJoined (take 100 (sort_key (\<lambda>r. prow_id (fst r)) rows)))), st))"

text \<open>
  \<^verbatim>\<open>AddProductToInvoice\<close>: \<^verbatim>\<open>INSERT ... ON CONFLICT (invoice_id, product_id) DO UPDATE
  SET count = EXCLUDED.count RETURNING *\<close>. The proposed row draws its id from the
  sequence and is tested against \<^verbatim>\<open>CHECK (count > 0)\<close> first; a row with the same
  pair then has its count replaced; otherwise the row is inserted and the two foreign
  keys are tested at the end of the statement, the one on \<^verbatim>\<open>invoice_id\<close> (declared
  first) before the one on \<^verbatim>\<open>product_id\<close>.
\<close>

definition samePair :: "int \<Rightarrow> int \<Rightarrow> InvoiceItem \<Rightarrow> bool" where
  "samePair invoice_id product_id ii =
     (InvoiceItem_InvoiceID ii = invoice_id \<and> InvoiceItem_ProductID ii = product_id)"

definition AddProductToInvoice_sql ::
  "int \<times> int \<times> int \<Rightarrow> store \<Rightarrow> (go_error + InvoiceItem) \<times> store" where
  "AddProductToInvoice_sql params st =
     (let invoice_id = fst params; product_id = fst (snd params); count = snd (snd params);
          new_id = invoice_item_id_seq st;
          st1 = st\<lparr>invoice_item_id_seq := new_id + 1\<rparr>
      in if \<not> 0 < count then (Inl (PqError ''23514'' ''invoice_item_count_check''), st1)
         else (case find (samePair invoice_id product_id) (invoice_item_table st) of
                 Some old \<Rightarrow>
                   (Inr (old\<lparr>InvoiceItem_Count := count\<rparr>),
                    st1\<lparr>invoice_item_table :=
                          map (\<lambda>ii. if samePair invoice_id product_id ii
                                    then ii\<lparr>InvoiceItem_Count := count\<rparr> else ii)
                              (invoice_item_table st)\<rparr>)
               | None \<Rightarrow>
                   if \<not> list_ex (\<lambda>i. Invoice_ID i = invoice_id) (invoice_table st)
                   then (Inl (PqError ''23503'' ''invoice_item_invoice_id_fkey''), st1)
                   else if \<not> list_ex (\<lambda>p. prow_id p = product_id) (product_table st)
                   then (Inl (PqError ''23503'' ''invoice_item_product_id_fkey''), st1)
                   else (let row = \<lparr>InvoiceItem_ID = new_id, InvoiceItem_InvoiceID = invoice_id,
                                    InvoiceItem_ProductID = product_id, InvoiceItem_Count = count\<rparr>
                         in (Inr row, st1\<lparr>invoice_item_table := invoice_item_table st @ [row]\<rparr>))))"

subsection \<open>Writing an invoice\<close>

text \<open>
  What PostgreSQL makes of a parameter when it stores it is not decided by the
  repository and is a parameter of the two queries below: the value a text gets in the
  column \<^verbatim>\<open>invoice_number VARCHAR(50)\<close>, and the value an instant gets through the cast
  \<^verbatim>\<open>::timestamp\<close> in the column \<^verbatim>\<open>invoice_date TIMESTAMPTZ\<close>; or, on the left, the
  SQLSTATE of the data exception (class 22) the conversion raises. Such an error names
  no constraint.
\<close>

record Postgres =
  varchar50 :: "string \<Rightarrow> string + string"
  timestamptz :: "time \<Rightarrow> string + time"

text \<open>
  \<^verbatim>\<open>CreateInvoice\<close>: \<^verbatim>\<open>INSERT INTO invoice (invoice_number, invoice_date, customer_id)
  VALUES (...) RETURNING *\<close>. The instant is converted when the parameters are bound;
  the row then draws its id and converts the number; \<^verbatim>\<open>invoice_number ... UNIQUE\<close> is
  tested when the row is inserted (constraint \<^verbatim>\<open>invoice_invoice_number_key\<close>, SQLSTATE
  23505), and \<^verbatim>\<open>FOREIGN KEY (customer_id) REFERENCES customer(id)\<close> at the end of the
  statement (constraint \<^verbatim>\<open>invoice_customer_id_fkey\<close>, SQLSTATE 23503).
\<close>

definition CreateInvoice_sql ::
  "Postgres \<Rightarrow> string \<times> time \<times> int \<Rightarrow> store \<Rightarrow> (go_error + Invoice) \<times> store" where
  "CreateInvoice_sql pg params st =
     (let invoice_number = fst params; invoice_date = fst (snd params);
          customer_id = snd (snd params)
      in case timestamptz pg invoice_date of
           Inl sqlstate \<Rightarrow> (Inl (PqError sqlstate []), st)
         | Inr date \<Rightarrow>
             (let new_id = invoice_id_seq st;
                  st1 = st\<lparr>invoice_id_seq := new_id + 1\<rparr>
              in case varchar50 pg invoice_number of
                   Inl sqlstate \<Rightarrow> (Inl (PqError sqlstate []), st1)
                 | Inr number \<Rightarrow>
                     if list_ex (\<lambda>v. Invoice_InvoiceNumber v = number) (invoice_table st)
                     then (Inl (PqError ''23505'' ''invoice_invoice_number_key''), st1)
                     else if \<not> list_ex (\<lambda>c. Customer_ID c = customer_id) (customer_table st)
                     then (Inl (PqError ''23503'' ''invoice_customer_id_fkey''), st1)
                     else (let row = \<lparr>Invoice_ID = new_id, Invoice_InvoiceNumber = number,
                                      Invoice_InvoiceDate = date, Invoice_CustomerID = customer_id\<rparr>
                           in (Inr row, st1\<lparr>invoice_table := invoice_table st @ [row]\<rparr>))))"

text \<open>
  \<^verbatim>\<open>UpdateInvoice\<close>: one statement, as the delete queries: a CTE tests existence, a
  second one updates the row and returns it, and the \<^verbatim>\<open>CASE\<close> picks the result text;
  the columns of the updated row are NULL when there is none. The instant is
  converted when the parameters are bound, the number for the row that is updated.
  The new number must
  differ from the number of every other invoice, and a changed customer id must be
  the id of a customer; a failure of either fails the statement and changes nothing.
\<close>

definition UpdateInvoice_sql ::
  "Postgres \<Rightarrow> int \<times> string \<times> time \<times> int \<Rightarrow> store \<Rightarrow> (go_error + UpdateInvoiceRow) \<times> store"
  where
  "UpdateInvoice_sql pg params st =
     (let invoice_id = fst params; invoice_number = fst (snd params);
          invoice_date = fst (snd (snd params)); customer_id = snd (snd (snd params));
          invoice_exists = list_ex (\<lambda>v. Invoice_ID v = invoice_id) (invoice_table st);
          to_update = filter (\<lambda>v. Invoice_ID v = invoice_id) (invoice_table st)
      in case timestamptz pg invoice_date of
           Inl sqlstate \<Rightarrow> (Inl (PqError sqlstate []), st)
         | Inr date \<Rightarrow>
             if to_update = [] then
               (Inr \<lparr>Upd_Result = (if \<not> invoice_exists then ''invoice_not_found''
                                    else ''update_failed''),
                     Upd_ID = None, Upd_InvoiceNumber = None, Upd_InvoiceDate = None,
                     Upd_CustomerID = None\<rparr>, st)
             else
               (case varchar50 pg invoice_number of
                  Inl sqlstate \<Rightarrow> (Inl (PqError sqlstate []), st)
                | Inr number \<Rightarrow>
                    if list_ex (\<lambda>v. Invoice_ID v \<noteq> invoice_id \<and> Invoice_InvoiceNumber v = number)
                         (invoice_table st)
                    then (Inl (PqError ''23505'' ''invoice_invoice_number_key''), st)
                    else if list_ex (\<lambda>v. Invoice_CustomerID v \<noteq> customer_id) to_update \<and>
                            \<not> list_ex (\<lambda>c. Customer_ID c = customer_id) (customer_table st)
                    then (Inl (PqError ''23503'' ''invoice_customer_id_fkey''), st)
                    else
                      (Inr \<lparr>Upd_Result = (if \<not> invoice_exists then ''invoice_not_found''
                                           else ''success''),
                            Upd_ID = Some invoice_id, Upd_InvoiceNumber = Some number,
                            Upd_InvoiceDate = Some date, Upd_CustomerID = Some customer_id\<rparr>,
                       st\<lparr>invoice_table :=
                            map (\<lambda>v. if Invoice_ID v = invoice_id
                                      then v\<lparr>Invoice_InvoiceNumber := number,
                                             Invoice_InvoiceDate := date,
                                             Invoice_CustomerID := customer_id\<rparr>
                                      else v)
                                (invoice_table st)\<rparr>)))"

section \<open>Requests, library collaborators and the query interfaces\<close>

record createProductRequest =
  cp_Name :: string
  cp_Description :: string
  cp_Price :: string
  cp_AvailableItems :: int

record updateProductRequest =
  up_Name :: string
  up_Description :: string
  up_Price :: string
  up_AvailableItems :: int

record createCustomerRequest =
  cc_FirstName :: string
  cc_LastName :: string

record updateCustomerRequest =
  uc_FirstName :: string
  uc_LastName :: string

record createInvoiceRequest =
  ci_InvoiceNumber :: string
  ci_InvoiceDate :: "time option"
  ci_CustomerID :: int

record updateInvoiceRequest =
  ui_InvoiceNumber :: string
  ui_InvoiceDate :: time
  ui_CustomerID :: int

record createInvoiceItemRequest =
  cii_Count :: int

text \<open>
  What the handlers take from the Go libraries and do not decide themselves:
  \<^verbatim>\<open>json.NewDecoder(r.Body).Decode\<close> into each request struct (\<open>None\<close> when it
  returns an error; an \<^verbatim>\<open>int32\<close> field it fills is in range), whether
  \<^verbatim>\<open>strconv.ParseFloat(s, 64)\<close> returns no error, and \<^verbatim>\<open>time.Now()\<close>.
\<close>

record 'b Runtime =
  decodeCreateProduct :: "'b \<Rightarrow> createProductRequest option"
  decodeUpdateProduct :: "'b \<Rightarrow> updateProductRequest option"
  decodeCreateCustomer :: "'b \<Rightarrow> createCustomerRequest option"
  decodeUpdateCustomer :: "'b \<Rightarrow> updateCustomerRequest option"
  decodeCreateInvoice :: "'b \<Rightarrow> createInvoiceRequest option"
  decodeUpdateInvoice :: "'b \<Rightarrow> updateInvoiceRequest option"
  decodeCreateInvoiceItem :: "'b \<Rightarrow> createInvoiceItemRequest option"
  ParseFloatOk :: "string \<Rightarrow> bool"
  Now :: time

record 'b Request =
  Method :: string
  Path :: string
  Body :: 'b

text \<open>
  The interfaces \<^verbatim>\<open>ProductQueries\<close>, \<^verbatim>\<open>CustomerQueries\<close> and \<^verbatim>\<open>InvoiceQueries\<close>: each
  method takes its parameters and the state of the store and returns the error or the
  value, and the new state. The parameter structs are tuples in field order.
\<close>

record 's ProductQueries =
  ListProducts :: "'s \<Rightarrow> (go_error + Product slice) \<times> 's"
  CreateProduct :: "string \<times> string option \<times> string \<times> int \<Rightarrow> 's \<Rightarrow> (go_error + Product) \<times> 's"
  GetProduct :: "int \<Rightarrow> 's \<Rightarrow> (go_error + Product) \<times> 's"
  UpdateProduct ::
    "int \<times> string \<times> string option \<times> string \<times> int \<Rightarrow> 's \<Rightarrow> (go_error + Product) \<times> 's"
  DeleteProduct :: "int \<Rightarrow> 's \<Rightarrow> (go_error + string) \<times> 's"

record 's CustomerQueries =
  ListCustomers :: "'s \<Rightarrow> (go_error + Customer slice) \<times> 's"
  CreateCustomer :: "string \<times> string \<Rightarrow> 's \<Rightarrow> (go_error + Customer) \<times> 's"
  GetCustomer :: "int \<Rightarrow> 's \<Rightarrow> (go_error + Customer) \<times> 's"
  UpdateCustomer :: "int \<times> string \<times> string \<Rightarrow> 's \<Rightarrow> (go_error + Customer) \<times> 's"
  DeleteCustomer :: "int \<Rightarrow> 's \<Rightarrow> (go_error + string) \<times> 's"

record 's InvoiceQueries =
  ListInvoices :: "'s \<Rightarrow> (go_error + Invoice slice) \<times> 's"
  CreateInvoice :: "string \<times> time \<times> int \<Rightarrow> 's \<Rightarrow> (go_error + Invoice) \<times> 's"
  GetInvoice :: "int \<Rightarrow> 's \<Rightarrow> (go_error + Invoice) \<times> 's"
  UpdateInvoice :: "int \<times> string \<times> time \<times> int \<Rightarrow> 's \<Rightarrow> (go_error + UpdateInvoiceRow) \<times> 's"
  DeleteInvoice :: "int \<Rightarrow> 's \<Rightarrow> (go_error + string) \<times> 's"
  ListProductsFromInvoice ::
    "int \<Rightarrow> 's \<Rightarrow> (go_error + ListProductsFromInvoiceRow slice) \<times> 's"
  AddProductToInvoice :: "int \<times> int \<times> int \<Rightarrow> 's \<Rightarrow> (go_error + InvoiceItem) \<times> 's"
  DeleteProductFromInvoice :: "int \<times> int \<Rightarrow> 's \<Rightarrow> (go_error + string) \<times> 's"

section \<open>handlers/product.go\<close>

definition productResponse :: "Product \<Rightarrow> json" where
  "productResponse p =
     JObj [(''id'', JNum (Product_ID p)), (''name'', JStr (Product_Name p)),
           (''description'', JStr (NullString_String (Product_Description p))),
           (''price'', JStr (Product_Price p)),
           (''available_items'', JNum (Product_AvailableItems p))]"

definition NullString :: "string \<Rightarrow> string option" where
  "NullString s = (if s \<noteq> [] then Some s else None)"

definition ProductsHandler ::
  "'b Runtime \<Rightarrow> 's ProductQueries \<Rightarrow> 'b Request \<Rightarrow> 's \<Rightarrow> response \<times> 's" where
  "ProductsHandler rt q r st =
     (if Method r = MethodGet then
        (case ListProducts q st of
           (Inl err, st') \<Rightarrow> (writeInternalServerError, st')
         | (Inr products, st') \<Rightarrow>
             (writeServerResponse StatusOK
                (json_slice (foldl (\<lambda>response product. append response (productResponse product))
                                   (Slice []) (elems products))), st'))
      else if Method r = MethodPost then
        (case decodeCreateProduct rt (Body r) of
           None \<Rightarrow> (writeServerParseError, st)
         | Some product \<Rightarrow>
             if TrimSpace (cp_Name product) = [] then
               (httpError ''Product name is required'' StatusBadRequest, st)
             else if TrimSpace (cp_Price product) = [] then
               (httpError ''Product price is required'' StatusBadRequest, st)
             else if \<not> ParseFloatOk rt (cp_Price product) then
               (httpError ''Invalid price'' StatusBadRequest, st)
             else if cp_AvailableItems product < 0 then
               (httpError ''available_items must be greater than or equal to 0'' StatusBadRequest, st)
             else
               (case CreateProduct q (cp_Name product, NullString (cp_Description product),
                                      cp_Price product, cp_AvailableItems product) st of
                  (Inl err, st') \<Rightarrow>
                    ((case assert_pq err of
                        Some (code, constraint) \<Rightarrow>
                          if constraint = ''product_available_items_check'' then
                            httpError ''available_items must be greater than or equal to 0''
                              StatusBadRequest
                          else if constraint = ''product_price_check'' then
                            httpError ''price should be a positive number'' StatusBadRequest
                          else writeInternalServerError
                      | None \<Rightarrow> writeInternalServerError), st')
                | (Inr createdProduct, st') \<Rightarrow>
                    (writeServerResponse StatusCreated (productResponse createdProduct), st')))
      else (httpError MethodNotAllowedMsg StatusMethodNotAllowed, st))"

definition ProductHandler ::
  "'b Runtime \<Rightarrow> 's ProductQueries \<Rightarrow> 'b Request \<Rightarrow> 's \<Rightarrow> response \<times> 's" where
  "ProductHandler rt q r st =
     (case ExtractTrailingID (Path r) of
        None \<Rightarrow> (httpError ''Invalid product ID'' StatusBadRequest, st)
      | Some id_ \<Rightarrow>
          if Method r = MethodGet then
            (case GetProduct q (int32 id_) st of
               (Inl err, st') \<Rightarrow>
                 (if err = ErrNoRows then httpError ''Product not found'' StatusNotFound
                  else writeInternalServerError, st')
             | (Inr product, st') \<Rightarrow> (writeServerResponse StatusOK (productResponse product), st'))
          else if Method r = MethodPatch then
            (case decodeUpdateProduct rt (Body r) of
               None \<Rightarrow> (writeServerParseError, st)
             | Some product \<Rightarrow>
                 if TrimSpace (up_Name product) = [] then
                   (httpError ''Product name is required'' StatusBadRequest, st)
                 else if TrimSpace (up_Price product) = [] then
                   (httpError ''Product price is required'' StatusBadRequest, st)
                 else if \<not> ParseFloatOk rt (up_Price product) then
                   (httpError ''Invalid price'' StatusBadRequest, st)
                 else if up_AvailableItems product < 0 then
                   (httpError ''available_items must be greater than or equal to 0''
                      StatusBadRequest, st)
                 else
                   (case UpdateProduct q (int32 id_, up_Name product,
                                          NullString (up_Description product),
                                          up_Price product, up_AvailableItems product) st of
                      (Inl err, st') \<Rightarrow>
                        (if err = ErrNoRows then httpError ''Product not found'' StatusNotFound
                         else (case assert_pq err of
                                 Some (code, constraint) \<Rightarrow>
                                   if constraint = ''product_available_items_check'' then
                                     httpError ''available_items must be greater than or equal to 0''
                                       StatusBadRequest
                                   else writeInternalServerError
                               | None \<Rightarrow> writeInternalServerError), st')
                    | (Inr updatedProduct, st') \<Rightarrow>
                        (writeServerResponse StatusOK (productResponse updatedProduct), st')))
          else if Method r = MethodDelete then
            (case DeleteProduct q (int32 id_) st of
               (Inl err, st') \<Rightarrow>
                 ((case errors_As err of
                     Some (code, constraint) \<Rightarrow>
                       if code = ''23503'' then
                         (if constraint = ''invoice_item_product_id_fkey'' then
                            httpError
                              ''cannot delete product: product is referenced in the invoice_item table''
                              StatusConflict
                          else writeInternalServerError)
                       else writeInternalServerError
                   | None \<Rightarrow> writeInternalServerError), st')
             | (Inr deletionResult, st') \<Rightarrow>
                 (if deletionResult = ''product_not_found'' then
                    httpError ''Product not found'' StatusNotFound
                  else WriteHeader StatusNoContent, st'))
          else (httpError MethodNotAllowedMsg StatusMethodNotAllowed, st))"

section \<open>handlers/customer.go\<close>

definition customerResponse :: "Customer \<Rightarrow> json" where
  "customerResponse c =
     JObj [(''id'', JNum (Customer_ID c)), (''first_name'', JStr (Customer_FirstName c)),
           (''last_name'', JStr (Customer_LastName c))]"

definition CustomersHandler ::
  "'b Runtime \<Rightarrow> 's CustomerQueries \<Rightarrow> 'b Request \<Rightarrow> 's \<Rightarrow> response \<times> 's" where
  "CustomersHandler rt q r st =
     (if Method r = MethodGet then
        (case ListCustomers q st of
           (Inl err, st') \<Rightarrow> (writeInternalServerError, st')
         | (Inr customers, st') \<Rightarrow>
             (writeServerResponse StatusOK
                (json_slice (foldl (\<lambda>response customer. append response (customerResponse customer))
                                   (Slice []) (elems customers))), st'))
      else if Method r = MethodPost then
        (case decodeCreateCustomer rt (Body r) of
           None \<Rightarrow> (writeServerParseError, st)
         | Some customer \<Rightarrow>
             if TrimSpace (cc_FirstName customer) = [] then
               (httpError ''First name is required'' StatusBadRequest, st)
             else if TrimSpace (cc_LastName customer) = [] then
               (httpError ''Last name is required'' StatusBadRequest, st)
             else
               (case CreateCustomer q (cc_FirstName customer, cc_LastName customer) st of
                  (Inl err, st') \<Rightarrow> (writeInternalServerError, st')
                | (Inr createdCustomer, st') \<Rightarrow>
                    (writeServerResponse StatusCreated (customerResponse createdCustomer), st')))
      else (httpError MethodNotAllowedMsg StatusMethodNotAllowed, st))"

definition CustomerHandler ::
  "'b Runtime \<Rightarrow> 's CustomerQueries \<Rightarrow> 'b Request \<Rightarrow> 's \<Rightarrow> response \<times> 's" where
  "CustomerHandler rt q r st =
     (case ExtractTrailingID (Path r) of
        None \<Rightarrow> (httpError ''Invalid customer ID'' StatusBadRequest, st)
      | Some id_ \<Rightarrow>
          if Method r = MethodGet then
            (case GetCustomer q (int32 id_) st of
               (Inl err, st') \<Rightarrow>
                 (if err = ErrNoRows then httpError ''Customer not found'' StatusNotFound
                  else writeInternalServerError, st')
             | (Inr customer, st') \<Rightarrow>
                 (writeServerResponse StatusOK (customerResponse customer), st'))
          else if Method r = MethodPatch then
            (case decodeUpdateCustomer rt (Body r) of
               None \<Rightarrow> (writeServerParseError, st)
             | Some customer \<Rightarrow>
                 if TrimSpace (uc_FirstName customer) = [] then
                   (httpError ''First name is required'' StatusBadRequest, st)
                 else if TrimSpace (uc_LastName customer) = [] then
                   (httpError ''Last name is required'' StatusBadRequest, st)
                 else
                   (case UpdateCustomer q (int32 id_, uc_FirstName customer, uc_LastName customer) st of
                      (Inl err, st') \<Rightarrow>
                        (if err = ErrNoRows then httpError ''Customer not found'' StatusNotFound
                         else writeInternalServerError, st')
                    | (Inr updatedCustomer, st') \<Rightarrow>
                        (writeServerResponse StatusOK (customerResponse updatedCustomer), st')))
          else if Method r = MethodDelete then
            (case DeleteCustomer q (int32 id_) st of
               (Inl err, st') \<Rightarrow>
                 ((case errors_As err of
                     Some (code, constraint) \<Rightarrow>
                       if code = ''23503'' then
                         (if constraint = ''invoice_customer_id_fkey'' then
                            httpError
                              ''cannot delete customer: customer is referenced in the invoice table''
                              StatusConflict
                          else writeInternalServerError)
                       else writeInternalServerError
                   | None \<Rightarrow> writeInternalServerError), st')
             | (Inr deletionResult, st') \<Rightarrow>
                 (if deletionResult = ''customer_not_found'' then
                    httpError ''Customer not found'' StatusNotFound
                  else WriteHeader StatusNoContent, st'))
          else (httpError MethodNotAllowedMsg StatusMethodNotAllowed, st))"

section \<open>handlers/invoice.go\<close>

definition invoiceResponse :: "int \<Rightarrow> string \<Rightarrow> time \<Rightarrow> int \<Rightarrow> json" where
  "invoiceResponse i num date cust =
     JObj [(''id'', JNum i), (''invoice_number'', JStr num), (''invoice_date'', JTime date),
           (''customer_id'', JNum cust)]"

definition invoiceItemResponse :: "InvoiceItem \<Rightarrow> json" where
  "invoiceItemResponse item =
     JObj [(''id'', JNum (InvoiceItem_ID item)), (''invoice_id'', JNum (InvoiceItem_InvoiceID item)),
           (''product_id'', JNum (InvoiceItem_ProductID item)),
           (''count'', JNum (InvoiceItem_Count item))]"

definition invoiceProductResponse :: "ListProductsFromInvoiceRow \<Rightarrow> json" where
  "invoiceProductResponse item =
     JObj [(''id'', JNum (Row_ID item)), (''name'', JStr (Row_Name item)),
           (''description'', JStr (NullString_String (Row_Description item))),
           (''price'', JStr (Row_Price item)), (''count'', JNum (Row_Count item)),
           (''sum'', JStr (Row_Sum item))]"

definition InvoicesHandler ::
  "'b Runtime \<Rightarrow> 's InvoiceQueries \<Rightarrow> 'b Request \<Rightarrow> 's \<Rightarrow> response \<times> 's" where
  "InvoicesHandler rt q r st =
     (if Method r = MethodGet then
        (case ListInvoices q st of
           (Inl err, st') \<Rightarrow> (writeInternalServerError, st')
         | (Inr invoices, st') \<Rightarrow>
             (writeServerResponse StatusOK
                (json_slice
                   (foldl (\<lambda>response i. append response
                              (invoiceResponse (Invoice_ID i) (Invoice_InvoiceNumber i)
                                 (Invoice_InvoiceDate i) (Invoice_CustomerID i)))
                          (Slice []) (elems invoices))), st'))
      else if Method r = MethodPost then
        (case decodeCreateInvoice rt (Body r) of
           None \<Rightarrow> (writeServerParseError, st)
         | Some invoiceCreate \<Rightarrow>
             if TrimSpace (ci_InvoiceNumber invoiceCreate) = [] then
               (httpError ''invoice_number must not be empty'' StatusBadRequest, st)
             else if ci_CustomerID invoiceCreate \<le> 0 then
               (httpError ''customer_id should be a positive number'' StatusBadRequest, st)
             else
               (let invoiceDate =
                      (case ci_InvoiceDate invoiceCreate of
                         Some d \<Rightarrow> if \<not> IsZero d then d else Now rt
                       | None \<Rightarrow> Now rt)
                in case CreateInvoice q (ci_InvoiceNumber invoiceCreate, invoiceDate,
                                         ci_CustomerID invoiceCreate) st of
                     (Inl err, st') \<Rightarrow>
                       ((case errors_As err of
                           Some (code, constraint) \<Rightarrow>
                             if code = ''23505'' then
                               httpError ''Invoice number must be unique'' StatusConflict
                             else if code = ''23503'' then
                               httpError ''Specified customer does not exist'' StatusBadRequest
                             else writeInternalServerError
                         | None \<Rightarrow> writeInternalServerError), st')
                   | (Inr createdInvoice, st') \<Rightarrow>
                       (writeServerResponse StatusCreated
                          (invoiceResponse (Invoice_ID createdInvoice)
                             (Invoice_InvoiceNumber createdInvoice)
                             (Invoice_InvoiceDate createdInvoice)
                             (Invoice_CustomerID createdInvoice)), st')))
      else (httpError MethodNotAllowedMsg StatusMethodNotAllowed, st))"

text \<open>
  \<^verbatim>\<open>InvoiceHandler\<close> is written in four pieces, in the order of the source: the
  branch for \<^verbatim>\<open>/invoices/{invoice_id}/products\<close>, the branch for
  \<^verbatim>\<open>/invoices/{invoice_id}/products/{product_id}\<close>, the invoice-only methods at the
  end of the function, and the path analysis that picks one of them.
\<close>

definition invoiceProductsBranch ::
  "'s InvoiceQueries \<Rightarrow> 'b Request \<Rightarrow> int \<Rightarrow> 's \<Rightarrow> response \<times> 's" where
  "invoiceProductsBranch q r invoiceID st =
     (if Method r = MethodGet then
        (case ListProductsFromInvoice q (int32 invoiceID) st of
           (Inl err, st') \<Rightarrow>
             (if err = ErrNoRows then httpError ''Invoice not found'' StatusNotFound
              else writeInternalServerError, st')
         | (Inr items, st') \<Rightarrow>
             (writeServerResponse StatusOK
                (json_slice (foldl (\<lambda>response item. append response (invoiceProductResponse item))
                                   (Slice []) (elems items))), st'))
      else (httpError MethodNotAllowedMsg StatusMethodNotAllowed, st))"

definition invoiceProductBranch ::
  "'b Runtime \<Rightarrow> 's InvoiceQueries \<Rightarrow> 'b Request \<Rightarrow> int \<Rightarrow> string \<Rightarrow> 's \<Rightarrow> response \<times> 's" where
  "invoiceProductBranch rt q r invoiceID seg st =
     (case Atoi seg of
        None \<Rightarrow> (httpError ''Invalid product ID'' StatusBadRequest, st)
      | Some productID \<Rightarrow>
          if Method r = MethodDelete then
            (case DeleteProductFromInvoice q (int32 invoiceID, int32 productID) st of
               (Inl err, st') \<Rightarrow> (writeInternalServerError, st')
             | (Inr result, st') \<Rightarrow>
                 (if result = ''invoice_item_not_found'' then
                    httpError ''Provided invoice doesn't contain the specified product''
                      StatusNotFound
                  else WriteHeader StatusNoContent, st'))
          else if Method r = MethodPost then
            (case decodeCreateInvoiceItem rt (Body r) of
               None \<Rightarrow> (writeServerParseError, st)
             | Some params \<Rightarrow>
                 if cii_Count params \<le> 0 then
                   (httpError ''count must be greater than 0'' StatusBadRequest, st)
                 else
                   (case AddProductToInvoice q (int32 invoiceID, int32 productID, cii_Count params) st of
                      (Inl err, st') \<Rightarrow>
                        ((case assert_pq err of
                            Some (code, constraint) \<Rightarrow>
                              if code = ''23503'' then
                                (if constraint = ''invoice_item_product_id_fkey'' then
                                   httpError ''The provided product does not exist'' StatusNotFound
                                 else if constraint = ''invoice_item_invoice_id_fkey'' then
                                   httpError ''The provided invoice does not exist'' StatusNotFound
                                 else writeInternalServerError)
                              else
                                (case assert_pq err of
                                   Some (code2, constraint2) \<Rightarrow>
                                     if constraint2 = ''invoice_item_count_check'' then
                                       httpError ''count must be greater than 0'' StatusBadRequest
                                     else writeInternalServerError
                                 | None \<Rightarrow> writeInternalServerError)
                          | None \<Rightarrow> writeInternalServerError), st')
                    | (Inr item, st') \<Rightarrow>
                        (writeServerResponse StatusCreated (invoiceItemResponse item), st')))
          else (httpError MethodNotAllowedMsg StatusMethodNotAllowed, st))"

definition invoiceOnlyBranch ::
  "'b Runtime \<Rightarrow> 's InvoiceQueries \<Rightarrow> 'b Request \<Rightarrow> int \<Rightarrow> 's \<Rightarrow> response \<times> 's" where
  "invoiceOnlyBranch rt q r invoiceID st =
     (if Method r = MethodGet then
        (case GetInvoice q (int32 invoiceID) st of
           (Inl err, st') \<Rightarrow>
             (if err = ErrNoRows then httpError ''Invoice not found'' StatusNotFound
              else writeInternalServerError, st')
         | (Inr i, st') \<Rightarrow>
             (writeServerResponse StatusOK
                (invoiceResponse (Invoice_ID i) (Invoice_InvoiceNumber i) (Invoice_InvoiceDate i)
                   (Invoice_CustomerID i)), st'))
      else if Method r = MethodPatch then
        (case decodeUpdateInvoice rt (Body r) of
           None \<Rightarrow> (writeServerParseError, st)
         | Some invoiceUpdate \<Rightarrow>
             if TrimSpace (ui_InvoiceNumber invoiceUpdate) = [] then
               (httpError ''invoice_number must not be empty'' StatusBadRequest, st)
             else if IsZero (ui_InvoiceDate invoiceUpdate) then
               (httpError ''invoice_date must be provided'' StatusBadRequest, st)
             else if ui_CustomerID invoiceUpdate \<le> 0 then
               (httpError ''customer_id should be a positive number'' StatusBadRequest, st)
             else
               (case UpdateInvoice q (int32 invoiceID, ui_InvoiceNumber invoiceUpdate,
                                      ui_InvoiceDate invoiceUpdate, ui_CustomerID invoiceUpdate) st of
                  (Inl err, st') \<Rightarrow>
                    ((case errors_As err of
                        Some (code, constraint) \<Rightarrow>
                          if code = ''23505'' then
                            httpError ''Invoice number must be unique'' StatusConflict
                          else if code = ''23503'' then
                            httpError ''Specified customer does not exist'' StatusBadRequest
                          else writeInternalServerError
                      | None \<Rightarrow> writeInternalServerError), st')
                | (Inr updatedInvoice, st') \<Rightarrow>
                    (if Upd_Result updatedInvoice \<noteq> ''success'' then
                       (if Upd_Result updatedInvoice = ''invoice_not_found'' then
                          httpError ''Invoice not found'' StatusNotFound
                        else writeInternalServerError)
                     else
                       writeServerResponse StatusOK
                         (invoiceResponse (NullInt_value (Upd_ID updatedInvoice))
                            (NullString_String (Upd_InvoiceNumber updatedInvoice))
                            (NullTime_Time (Upd_InvoiceDate updatedInvoice))
                            (NullInt_value (Upd_CustomerID updatedInvoice))), st')))
      else if Method r = MethodDelete then
        (case DeleteInvoice q (int32 invoiceID) st of
           (Inl err, st') \<Rightarrow>
             ((case errors_As err of
                 Some (code, constraint) \<Rightarrow>
                   if code = ''23503'' then
                     (if constraint = ''invoice_item_invoice_id_fkey'' then
                        httpError
                          ''cannot delete invoice: invoice is referenced in the invoice_item table''
                          StatusConflict
                      else writeInternalServerError)
                   else writeInternalServerError
               | None \<Rightarrow> writeInternalServerError), st')
         | (Inr deletionResult, st') \<Rightarrow>
             (if deletionResult = ''invoice_not_found'' then
                httpError ''Invoice not found'' StatusNotFound
              else WriteHeader StatusNoContent, st'))
      else (httpError MethodNotAllowedMsg StatusMethodNotAllowed, st))"

text \<open>The non-empty pieces of the path, and the index of the first piece
  \<^verbatim>\<open>invoices\<close> (\<open>None\<close> for the source's \<open>-1\<close>).\<close>

definition pathSegments :: "string \<Rightarrow> string list" where
  "pathSegments path = filter (\<lambda>seg. seg \<noteq> []) (Split path (CHR ''/''))"

fun indexOf :: "string list \<Rightarrow> string \<Rightarrow> nat option" where
  "indexOf [] x = None"
| "indexOf (seg # segs) x = (if seg = x then Some 0 else map_option Suc (indexOf segs x))"

definition InvoiceHandler ::
  "'b Runtime \<Rightarrow> 's InvoiceQueries \<Rightarrow> 'b Request \<Rightarrow> 's \<Rightarrow> response \<times> 's" where
  "InvoiceHandler rt q r st =
     (let segments = pathSegments (Path r) in
      case indexOf segments ''invoices'' of
        None \<Rightarrow> (httpError ''Invalid invoice path'' StatusBadRequest, st)
      | Some invoiceIdx \<Rightarrow>
          if length segments \<le> invoiceIdx + 1 then
            (httpError ''Invalid invoice path'' StatusBadRequest, st)
          else
            (case Atoi (segments ! (invoiceIdx + 1)) of
               None \<Rightarrow> (httpError ''Invalid invoice ID'' StatusBadRequest, st)
             | Some invoiceID \<Rightarrow>
                 if length segments > invoiceIdx + 2 \<and> segments ! (invoiceIdx + 2) = ''products''
                 then
                   (if length segments = invoiceIdx + 3 then
                      invoiceProductsBranch q r invoiceID st
                    else if length segments = invoiceIdx + 4 then
                      invoiceProductBranch rt q r invoiceID (segments ! (invoiceIdx + 3)) st
                    else (httpError ''Not found'' StatusNotFound, st))
                 else invoiceOnlyBranch rt q r invoiceID st))"

section \<open>Stores and requests for concrete runs\<close>

text \<open>
  As in the tests of the repository, a query object for a concrete run answers only
  the methods the run calls: every method starts as \<open>unusedCall\<close>, and the queries
  of \<^verbatim>\<open>query.sql\<close> modelled above replace the ones they implement.
\<close>

definition unusedCall :: "'s \<Rightarrow> (go_error + 'a) \<times> 's" where
  "unusedCall st = (Inl (OtherError ''unexpected call''), st)"

definition stubProductQueries :: "'s ProductQueries" where
  "stubProductQueries =
     \<lparr>ListProducts = unusedCall, CreateProduct = (\<lambda>p. unusedCall), GetProduct = (\<lambda>i. unusedCall),
      UpdateProduct = (\<lambda>p. unusedCall), DeleteProduct = (\<lambda>i. unusedCall)\<rparr>"

definition stubCustomerQueries :: "'s CustomerQueries" where
  "stubCustomerQueries =
     \<lparr>ListCustomers = unusedCall, CreateCustomer = (\<lambda>p. unusedCall),
      GetCustomer = (\<lambda>i. unusedCall), UpdateCustomer = (\<lambda>p. unusedCall),
      DeleteCustomer = (\<lambda>i. unusedCall)\<rparr>"

definition stubInvoiceQueries :: "'s InvoiceQueries" where
  "stubInvoiceQueries =
     \<lparr>ListInvoices = unusedCall, CreateInvoice = (\<lambda>p. unusedCall), GetInvoice = (\<lambda>i. unusedCall),
      UpdateInvoice = (\<lambda>p. unusedCall), DeleteInvoice = (\<lambda>i. unusedCall),
      ListProductsFromInvoice = (\<lambda>i. unusedCall), AddProductToInvoice = (\<lambda>p. unusedCall),
      DeleteProductFromInvoice = (\<lambda>p. unusedCall)\<rparr>"

definition sqlProductQueries :: "store ProductQueries" where
  "sqlProductQueries =
     stubProductQueries\<lparr>ListProducts := ListProducts_sql, DeleteProduct := DeleteProduct_sql\<rparr>"

definition sqlCustomerQueries :: "store CustomerQueries" where
  "sqlCustomerQueries =
     stubCustomerQueries\<lparr>ListCustomers := ListCustomers_sql, DeleteCustomer := DeleteCustomer_sql\<rparr>"

definition sqlInvoiceQueries :: "store InvoiceQueries" where
  "sqlInvoiceQueries =
     stubInvoiceQueries\<lparr>ListInvoices := ListInvoices_sql, DeleteInvoice := DeleteInvoice_sql,
       ListProductsFromInvoice := ListProductsFromInvoice_sql,
       AddProductToInvoice := AddProductToInvoice_sql,
       DeleteProductFromInvoice := DeleteProductFromInvoice_sql\<rparr>"

text \<open>A runtime whose decoders fail, and requests without a body.\<close>

definition stubRuntime :: "unit Runtime" where
  "stubRuntime =
     \<lparr>decodeCreateProduct = (\<lambda>b. None), decodeUpdateProduct = (\<lambda>b. None),
      decodeCreateCustomer = (\<lambda>b. None), decodeUpdateCustomer = (\<lambda>b. None),
      decodeCreateInvoice = (\<lambda>b. None), decodeUpdateInvoice = (\<lambda>b. None),
      decodeCreateInvoiceItem = (\<lambda>b. None), ParseFloatOk = (\<lambda>s. False), Now = 1000\<rparr>"

definition request :: "string \<Rightarrow> string \<Rightarrow> unit Request" where
  "request m p = \<lparr>Method = m, Path = p, Body = ()\<rparr>"

definition emptyStore :: store where
  "emptyStore =
     \<lparr>customer_table = [], product_table = [], invoice_table = [], invoice_item_table = [],
      invoice_item_id_seq = 1, invoice_id_seq = 1\<rparr>"

text \<open>The scenario of the README: customer 1, product 1 (price 222.00) and invoice 1
  of customer 1, first without a line item, then with product 1 five times.\<close>

definition shopStore :: store where
  "shopStore =
     \<lparr>customer_table =
        [\<lparr>Customer_ID = 1, Customer_FirstName = ''Jarred'', Customer_LastName = ''Black''\<rparr>,
         \<lparr>Customer_ID = 2, Customer_FirstName = ''Joe'', Customer_LastName = ''White''\<rparr>],
      product_table =
        [\<lparr>prow_id = 2, prow_name = ''Keyboard'', prow_description = None, prow_price = 5021,
          prow_available_items = 33\<rparr>,
         \<lparr>prow_id = 1, prow_name = ''Mouse'', prow_description = None, prow_price = 22200,
          prow_available_items = 22\<rparr>],
      invoice_table =
        [\<lparr>Invoice_ID = 1, Invoice_InvoiceNumber = ''INV-1'', Invoice_InvoiceDate = 1000,
          Invoice_CustomerID = 1\<rparr>],
      invoice_item_table = [],
      invoice_item_id_seq = 1,
      invoice_id_seq = 2\<rparr>"

definition shopStoreWithItem :: store where
  "shopStoreWithItem =
     shopStore\<lparr>invoice_item_table :=
                  [\<lparr>InvoiceItem_ID = 1, InvoiceItem_InvoiceID = 1, InvoiceItem_ProductID = 1,
                    InvoiceItem_Count = 5\<rparr>],
                invoice_item_id_seq := 2\<rparr>"

text \<open>Runtimes that decode every body to one given request, a query object that
  records the parameters of \<^verbatim>\<open>CreateInvoice\<close> and answers with a row made of them, and
  query objects whose writes fail with one given error.\<close>

definition createInvoiceRuntime :: "createInvoiceRequest \<Rightarrow> unit Runtime" where
  "createInvoiceRuntime c = stubRuntime\<lparr>decodeCreateInvoice := (\<lambda>b. Some c)\<rparr>"


definition createItemRuntime :: "int \<Rightarrow> unit Runtime" where
  "createItemRuntime c = stubRuntime\<lparr>decodeCreateInvoiceItem := (\<lambda>b. Some \<lparr>cii_Count = c\<rparr>)\<rparr>"

definition failingInvoiceQueries :: "go_error \<Rightarrow> unit InvoiceQueries" where
  "failingInvoiceQueries e =
     stubInvoiceQueries\<lparr>CreateInvoice := (\<lambda>p st. (Inl e, st)),
                        UpdateInvoice := (\<lambda>p st. (Inl e, st)),
                        AddProductToInvoice := (\<lambda>p st. (Inl e, st)),
                        ListProductsFromInvoice := (\<lambda>i st. (Inl e, st))\<rparr>"

definition createProductRuntime :: "createProductRequest \<Rightarrow> bool \<Rightarrow> unit Runtime" where
  "createProductRuntime p ok =
     stubRuntime\<lparr>decodeCreateProduct := (\<lambda>b. Some p), ParseFloatOk := (\<lambda>s. ok)\<rparr>"

definition updateProductRuntime :: "updateProductRequest \<Rightarrow> bool \<Rightarrow> unit Runtime" where
  "updateProductRuntime p ok =
     stubRuntime\<lparr>decodeUpdateProduct := (\<lambda>b. Some p), ParseFloatOk := (\<lambda>s. ok)\<rparr>"

definition failingProductQueries :: "go_error \<Rightarrow> unit ProductQueries" where
  "failingProductQueries e =
     stubProductQueries\<lparr>CreateProduct := (\<lambda>p st. (Inl e, st)),
                        UpdateProduct := (\<lambda>p st. (Inl e, st))\<rparr>"

text \<open>A conversion that keeps every instant and every text of at most 50 bytes, and
  the queries of invoices with the two writes over it.\<close>

definition plainPostgres :: Postgres where
  "plainPostgres =
     \<lparr>varchar50 = (\<lambda>s. if length s \<le> 50 then Inr s else Inl ''22001''),
      timestamptz = (\<lambda>t. Inr t)\<rparr>"

definition sqlInvoiceWrites :: "store InvoiceQueries" where
  "sqlInvoiceWrites =
     sqlInvoiceQueries\<lparr>CreateInvoice := CreateInvoice_sql plainPostgres,
                       UpdateInvoice := UpdateInvoice_sql plainPostgres\<rparr>"

definition updateInvoiceRuntime :: "updateInvoiceRequest \<Rightarrow> unit Runtime" where
  "updateInvoiceRuntime u = stubRuntime\<lparr>decodeUpdateInvoice := (\<lambda>b. Some u)\<rparr>"

section \<open>Facts shared by the proofs\<close>

lemma foldl_append_Slice:
  "foldl (\<lambda>response x. append response (f x)) (Slice acc) xs = Slice (acc @ map f xs)"
  by (induction xs arbitrary: acc) simp_all

lemma json_slice_foldl:
  "json_slice (foldl (\<lambda>response x. append response (f x)) (Slice []) xs) = JArr (map f xs)"
  by (simp add: foldl_append_Slice json_slice_def)

lemma InvoiceHandler_products_path:
  assumes "pathSegments (Path r) = [''api'', ''v1'', ''invoices'', iseg, ''products'']"
    and "Atoi iseg = Some n"
  shows "InvoiceHandler rt q r st = invoiceProductsBranch q r n st"
  using assms by (simp add: InvoiceHandler_def)

lemma InvoiceHandler_product_path:
  assumes "pathSegments (Path r) = [''api'', ''v1'', ''invoices'', iseg, ''products'', pseg]"
    and "Atoi iseg = Some n"
  shows "InvoiceHandler rt q r st = invoiceProductBranch rt q r n pseg st"
  using assms by (simp add: InvoiceHandler_def)

lemma InvoiceHandler_invoice_path:
  assumes "pathSegments (Path r) = [''api'', ''v1'', ''invoices'', iseg]"
    and "Atoi iseg = Some n"
  shows "InvoiceHandler rt q r st = invoiceOnlyBranch rt q r n st"
  using assms by (simp add: InvoiceHandler_def)

lemmas status_defs =
  StatusOK_def StatusCreated_def StatusNoContent_def StatusBadRequest_def StatusNotFound_def
  StatusMethodNotAllowed_def StatusConflict_def StatusInternalServerError_def

lemmas method_defs = MethodGet_def MethodPost_def MethodPatch_def MethodDelete_def

lemmas writer_defs =
  httpError_def WriteHeader_def writeServerResponse_def writeInternalServerError_def
  writeServerParseError_def

section \<open>List responses\<close>

text \<open>
  Claim C9. Every successful list operation answers with a JSON array: whatever slice
  the store returns (nil, as sqlc does for no rows, or not), the body is the array of
  the converted rows, so for zero rows it is the empty array and never \<^verbatim>\<open>null\<close>.
  This holds for the three entity lists and for the products of an invoice.
\<close>

theorem list_response_is_json_array:
  "(Method r1 = MethodGet \<and> ListProducts pq s1 = (Inr products, s1') \<longrightarrow>
      ProductsHandler rt pq r1 s1 =
        ((StatusOK, Json (JArr (map productResponse (elems products)))), s1')) \<and>
   (Method r2 = MethodGet \<and> ListCustomers cq s2 = (Inr customers, s2') \<longrightarrow>
      CustomersHandler rt cq r2 s2 =
        ((StatusOK, Json (JArr (map customerResponse (elems customers)))), s2')) \<and>
   (Method r3 = MethodGet \<and> ListInvoices iq s3 = (Inr invoices, s3') \<longrightarrow>
      InvoicesHandler rt iq r3 s3 =
        ((StatusOK, Json (JArr (map (\<lambda>i. invoiceResponse (Invoice_ID i) (Invoice_InvoiceNumber i)
                                        (Invoice_InvoiceDate i) (Invoice_CustomerID i))
                                  (elems invoices)))), s3')) \<and>
   (Method r4 = MethodGet \<and>
    pathSegments (Path r4) = [''api'', ''v1'', ''invoices'', iseg, ''products''] \<and>
    Atoi iseg = Some n \<and> ListProductsFromInvoice iq (int32 n) s4 = (Inr items, s4') \<longrightarrow>
      InvoiceHandler rt iq r4 s4 =
        ((StatusOK, Json (JArr (map invoiceProductResponse (elems items)))), s4'))"
proof (intro conjI impI)
  assume "Method r1 = MethodGet \<and> ListProducts pq s1 = (Inr products, s1')"
  then show "ProductsHandler rt pq r1 s1 =
        ((StatusOK, Json (JArr (map productResponse (elems products)))), s1')"
    by (simp add: ProductsHandler_def json_slice_foldl writeServerResponse_def)
next
  assume "Method r2 = MethodGet \<and> ListCustomers cq s2 = (Inr customers, s2')"
  then show "CustomersHandler rt cq r2 s2 =
        ((StatusOK, Json (JArr (map customerResponse (elems customers)))), s2')"
    by (simp add: CustomersHandler_def json_slice_foldl writeServerResponse_def)
next
  assume "Method r3 = MethodGet \<and> ListInvoices iq s3 = (Inr invoices, s3')"
  then show "InvoicesHandler rt iq r3 s3 =
        ((StatusOK, Json (JArr (map (\<lambda>i. invoiceResponse (Invoice_ID i) (Invoice_InvoiceNumber i)
                                        (Invoice_InvoiceDate i) (Invoice_CustomerID i))
                                  (elems invoices)))), s3')"
    by (simp add: InvoicesHandler_def json_slice_foldl writeServerResponse_def)
next
  assume a: "Method r4 = MethodGet \<and>
    pathSegments (Path r4) = [''api'', ''v1'', ''invoices'', iseg, ''products''] \<and>
    Atoi iseg = Some n \<and> ListProductsFromInvoice iq (int32 n) s4 = (Inr items, s4')"
  then have "InvoiceHandler rt iq r4 s4 = invoiceProductsBranch iq r4 n s4"
    by (simp add: InvoiceHandler_products_path)
  with a show "InvoiceHandler rt iq r4 s4 =
        ((StatusOK, Json (JArr (map invoiceProductResponse (elems items)))), s4')"
    by (simp add: invoiceProductsBranch_def json_slice_foldl writeServerResponse_def)
qed

lemma Atoi_1: "Atoi ''1'' = Some 1"
  by (simp add: Atoi_def isDigit_def)

lemma int32_1: "int32 1 = 1"
  by (simp add: int32_def)

text \<open>The four lists on stores without a matching row, where the queries return a nil slice.\<close>

theorem list_response_is_json_array_witness:
  "ProductsHandler stubRuntime sqlProductQueries (request MethodGet ''/api/v1/products'') emptyStore =
     ((200, Json (JArr [])), emptyStore) \<and>
   CustomersHandler stubRuntime sqlCustomerQueries (request MethodGet ''/api/v1/customers'') emptyStore =
     ((200, Json (JArr [])), emptyStore) \<and>
   InvoicesHandler stubRuntime sqlInvoiceQueries (request MethodGet ''/api/v1/invoices'') emptyStore =
     ((200, Json (JArr [])), emptyStore) \<and>
   InvoiceHandler stubRuntime sqlInvoiceQueries (request MethodGet ''/api/v1/invoices/1/products'')
       shopStore =
     ((200, Json (JArr [])), shopStore) \<and>
   Json (JArr []) \<noteq> Json JNull"
  using list_response_is_json_array [of "request MethodGet ''/api/v1/products''"
      sqlProductQueries emptyStore NilSlice emptyStore stubRuntime
      "request MethodGet ''/api/v1/customers''" sqlCustomerQueries emptyStore NilSlice emptyStore
      "request MethodGet ''/api/v1/invoices''" sqlInvoiceQueries emptyStore NilSlice emptyStore
      "request MethodGet ''/api/v1/invoices/1/products''" "''1''" 1 shopStore NilSlice shopStore]
  by (simp add: request_def sqlProductQueries_def sqlCustomerQueries_def sqlInvoiceQueries_def
      ListProducts_sql_def ListCustomers_sql_def ListInvoices_sql_def ListProductsFromInvoice_sql_def
      emptyStore_def shopStore_def manyRows_def joinedRows_def pathSegments_def Atoi_1 int32_1
      StatusOK_def)

section \<open>Delete results other than not-found\<close>

text \<open>
  Claim C10. In each of the four delete operations (product, customer, invoice, and a
  product of an invoice), when the store call returns no error, every result text
  other than the not-found text of that operation is answered with 204 No Content and
  an empty body; the text \<^verbatim>\<open>delete_failed\<close> of the queries is such a text.
\<close>

theorem delete_result_default_is_success:
  "(Method r1 = MethodDelete \<and> ExtractTrailingID (Path r1) = Some n1 \<and>
    DeleteProduct pq (int32 n1) s1 = (Inr result1, s1') \<and> result1 \<noteq> ''product_not_found'' \<longrightarrow>
      ProductHandler rt pq r1 s1 = ((StatusNoContent, NoBody), s1')) \<and>
   (Method r2 = MethodDelete \<and> ExtractTrailingID (Path r2) = Some n2 \<and>
    DeleteCustomer cq (int32 n2) s2 = (Inr result2, s2') \<and> result2 \<noteq> ''customer_not_found'' \<longrightarrow>
      CustomerHandler rt cq r2 s2 = ((StatusNoContent, NoBody), s2')) \<and>
   (Method r3 = MethodDelete \<and>
    pathSegments (Path r3) = [''api'', ''v1'', ''invoices'', iseg3] \<and> Atoi iseg3 = Some n3 \<and>
    DeleteInvoice iq (int32 n3) s3 = (Inr result3, s3') \<and> result3 \<noteq> ''invoice_not_found'' \<longrightarrow>
      InvoiceHandler rt iq r3 s3 = ((StatusNoContent, NoBody), s3')) \<and>
   (Method r4 = MethodDelete \<and>
    pathSegments (Path r4) = [''api'', ''v1'', ''invoices'', iseg4, ''products'', pseg4] \<and>
    Atoi iseg4 = Some n4 \<and> Atoi pseg4 = Some p4 \<and>
    DeleteProductFromInvoice iq (int32 n4, int32 p4) s4 = (Inr result4, s4') \<and>
    result4 \<noteq> ''invoice_item_not_found'' \<longrightarrow>
      InvoiceHandler rt iq r4 s4 = ((StatusNoContent, NoBody), s4'))"
proof (intro conjI impI)
  assume "Method r1 = MethodDelete \<and> ExtractTrailingID (Path r1) = Some n1 \<and>
    DeleteProduct pq (int32 n1) s1 = (Inr result1, s1') \<and> result1 \<noteq> ''product_not_found''"
  then show "ProductHandler rt pq r1 s1 = ((StatusNoContent, NoBody), s1')"
    by (simp add: ProductHandler_def method_defs WriteHeader_def)
next
  assume "Method r2 = MethodDelete \<and> ExtractTrailingID (Path r2) = Some n2 \<and>
    DeleteCustomer cq (int32 n2) s2 = (Inr result2, s2') \<and> result2 \<noteq> ''customer_not_found''"
  then show "CustomerHandler rt cq r2 s2 = ((StatusNoContent, NoBody), s2')"
    by (simp add: CustomerHandler_def method_defs WriteHeader_def)
next
  assume a: "Method r3 = MethodDelete \<and>
    pathSegments (Path r3) = [''api'', ''v1'', ''invoices'', iseg3] \<and> Atoi iseg3 = Some n3 \<and>
    DeleteInvoice iq (int32 n3) s3 = (Inr result3, s3') \<and> result3 \<noteq> ''invoice_not_found''"
  then have "InvoiceHandler rt iq r3 s3 = invoiceOnlyBranch rt iq r3 n3 s3"
    by (simp add: InvoiceHandler_invoice_path)
  with a show "InvoiceHandler rt iq r3 s3 = ((StatusNoContent, NoBody), s3')"
    by (simp add: invoiceOnlyBranch_def method_defs WriteHeader_def)
next
  assume a: "Method r4 = MethodDelete \<and>
    pathSegments (Path r4) = [''api'', ''v1'', ''invoices'', iseg4, ''products'', pseg4] \<and>
    Atoi iseg4 = Some n4 \<and> Atoi pseg4 = Some p4 \<and>
    DeleteProductFromInvoice iq (int32 n4, int32 p4) s4 = (Inr result4, s4') \<and>
    result4 \<noteq> ''invoice_item_not_found''"
  then have "InvoiceHandler rt iq r4 s4 = invoiceProductBranch rt iq r4 n4 pseg4 s4"
    by (simp add: InvoiceHandler_product_path)
  with a show "InvoiceHandler rt iq r4 s4 = ((StatusNoContent, NoBody), s4')"
    by (simp add: invoiceProductBranch_def method_defs WriteHeader_def)
qed

lemma ExtractTrailingID_products_1: "ExtractTrailingID ''/api/v1/products/1'' = Some 1"
  by (simp add: ExtractTrailingID_def Atoi_def isDigit_def)

lemma ExtractTrailingID_customers_1: "ExtractTrailingID ''/api/v1/customers/1'' = Some 1"
  by (simp add: ExtractTrailingID_def Atoi_def isDigit_def)

lemma pathSegments_invoices_1:
  "pathSegments ''/api/v1/invoices/1'' = [''api'', ''v1'', ''invoices'', ''1'']"
  by (simp add: pathSegments_def)

lemma pathSegments_invoices_1_products_1:
  "pathSegments ''/api/v1/invoices/1/products/1'' =
     [''api'', ''v1'', ''invoices'', ''1'', ''products'', ''1'']"
  by (simp add: pathSegments_def)

text \<open>Query objects that answer \<^verbatim>\<open>delete_failed\<close> without an error.\<close>

theorem delete_result_default_is_success_witness:
  "ProductHandler stubRuntime (stubProductQueries\<lparr>DeleteProduct := \<lambda>i st. (Inr ''delete_failed'', st)\<rparr>)
       (request MethodDelete ''/api/v1/products/1'') () = ((204, NoBody), ()) \<and>
   CustomerHandler stubRuntime (stubCustomerQueries\<lparr>DeleteCustomer := \<lambda>i st. (Inr ''delete_failed'', st)\<rparr>)
       (request MethodDelete ''/api/v1/customers/1'') () = ((204, NoBody), ()) \<and>
   InvoiceHandler stubRuntime
       (stubInvoiceQueries\<lparr>DeleteInvoice := \<lambda>i st. (Inr ''delete_failed'', st),
                            DeleteProductFromInvoice := \<lambda>p st. (Inr ''delete_failed'', st)\<rparr>)
       (request MethodDelete ''/api/v1/invoices/1'') () = ((204, NoBody), ()) \<and>
   InvoiceHandler stubRuntime
       (stubInvoiceQueries\<lparr>DeleteInvoice := \<lambda>i st. (Inr ''delete_failed'', st),
                            DeleteProductFromInvoice := \<lambda>p st. (Inr ''delete_failed'', st)\<rparr>)
       (request MethodDelete ''/api/v1/invoices/1/products/1'') () = ((204, NoBody), ())"
  using delete_result_default_is_success [of
      "request MethodDelete ''/api/v1/products/1''" 1
      "stubProductQueries\<lparr>DeleteProduct := \<lambda>i st. (Inr ''delete_failed'', st)\<rparr>" "()"
      "''delete_failed''" "()" stubRuntime
      "request MethodDelete ''/api/v1/customers/1''" 1
      "stubCustomerQueries\<lparr>DeleteCustomer := \<lambda>i st. (Inr ''delete_failed'', st)\<rparr>" "()"
      "''delete_failed''" "()"
      "request MethodDelete ''/api/v1/invoices/1''" "''1''" 1
      "stubInvoiceQueries\<lparr>DeleteInvoice := \<lambda>i st. (Inr ''delete_failed'', st),
                            DeleteProductFromInvoice := \<lambda>p st. (Inr ''delete_failed'', st)\<rparr>" "()"
      "''delete_failed''" "()"
      "request MethodDelete ''/api/v1/invoices/1/products/1''" "''1''" "''1''" 1 1 "()"
      "''delete_failed''" "()"]
  by (simp add: request_def stubProductQueries_def stubCustomerQueries_def stubInvoiceQueries_def
      ExtractTrailingID_products_1 ExtractTrailingID_customers_1 pathSegments_invoices_1
      pathSegments_invoices_1_products_1 Atoi_1 StatusNoContent_def)

section \<open>Creating an invoice\<close>




lemma TrimSpace_INV_1: "TrimSpace ''INV-1'' = ''INV-1''"
  by (simp add: TrimSpace_def asciiSpace_def space2_def space3_def)


section \<open>Deleting a customer, a product or an invoice\<close>

lemma filter_neq_absent: "\<not> list_ex (\<lambda>r. f r = i) xs \<Longrightarrow> filter (\<lambda>r. f r \<noteq> i) xs = xs"
  by (induction xs) auto

lemma filter_eq_present: "list_ex (\<lambda>r. f r = i) xs \<Longrightarrow> filter (\<lambda>r. f r = i) xs \<noteq> []"
  by (induction xs) auto

lemma DeleteCustomer_sql_outcomes:
  "DeleteCustomer_sql i st =
     (if \<not> list_ex (\<lambda>c. Customer_ID c = i) (customer_table st) then (Inr ''customer_not_found'', st)
      else if list_ex (\<lambda>v. Invoice_CustomerID v = i) (invoice_table st)
      then (Inl (PqError ''23503'' ''invoice_customer_id_fkey''), st)
      else (Inr ''success'',
            st\<lparr>customer_table := filter (\<lambda>c. Customer_ID c \<noteq> i) (customer_table st)\<rparr>))"
proof (cases "list_ex (\<lambda>c. Customer_ID c = i) (customer_table st)")
  case True
  then show ?thesis
    by (simp add: DeleteCustomer_sql_def Let_def filter_eq_present)
next
  case False
  then have "filter (\<lambda>c. Customer_ID c = i) (customer_table st) = []"
    by (simp add: list_ex_iff filter_empty_conv)
  with False show ?thesis
    by (simp add: DeleteCustomer_sql_def Let_def filter_neq_absent)
qed

lemma DeleteProduct_sql_outcomes:
  "DeleteProduct_sql i st =
     (if \<not> list_ex (\<lambda>p. prow_id p = i) (product_table st) then (Inr ''product_not_found'', st)
      else if list_ex (\<lambda>ii. InvoiceItem_ProductID ii = i) (invoice_item_table st)
      then (Inl (PqError ''23503'' ''invoice_item_product_id_fkey''), st)
      else (Inr ''success'',
            st\<lparr>product_table := filter (\<lambda>p. prow_id p \<noteq> i) (product_table st)\<rparr>))"
proof (cases "list_ex (\<lambda>p. prow_id p = i) (product_table st)")
  case True
  then show ?thesis
    by (simp add: DeleteProduct_sql_def Let_def filter_eq_present)
next
  case False
  then have "filter (\<lambda>p. prow_id p = i) (product_table st) = []"
    by (simp add: list_ex_iff filter_empty_conv)
  with False show ?thesis
    by (simp add: DeleteProduct_sql_def Let_def filter_neq_absent)
qed

lemma DeleteInvoice_sql_outcomes:
  "DeleteInvoice_sql i st =
     (if \<not> list_ex (\<lambda>v. Invoice_ID v = i) (invoice_table st) then (Inr ''invoice_not_found'', st)
      else if list_ex (\<lambda>ii. InvoiceItem_InvoiceID ii = i) (invoice_item_table st)
      then (Inl (PqError ''23503'' ''invoice_item_invoice_id_fkey''), st)
      else (Inr ''success'',
            st\<lparr>invoice_table := filter (\<lambda>v. Invoice_ID v \<noteq> i) (invoice_table st)\<rparr>))"
proof (cases "list_ex (\<lambda>v. Invoice_ID v = i) (invoice_table st)")
  case True
  then show ?thesis
    by (simp add: DeleteInvoice_sql_def Let_def filter_eq_present)
next
  case False
  then have "filter (\<lambda>v. Invoice_ID v = i) (invoice_table st) = []"
    by (simp add: list_ex_iff filter_empty_conv)
  with False show ?thesis
    by (simp add: DeleteInvoice_sql_def Let_def filter_neq_absent)
qed

text \<open>
  For the id the handler hands to the store, \<open>int32 n\<close> for the number \<open>n\<close> of the
  path: a delete request for a customer, a product or an invoice makes one call of the
  delete query, and has exactly three outcomes, decided by the store: 404 when no row
  has that id, 409 when a row has it and a dependent row (an invoice of the customer, a
  line item of the product or of the invoice) refers to it, and 204 when the row is
  removed. On 404 and on 409 the store is unchanged, so after a 409 the row is still
  there.
\<close>

theorem delete_has_three_outcomes:
  "(Method r1 = MethodDelete \<and> ExtractTrailingID (Path r1) = Some n1 \<and>
    DeleteCustomer cq = DeleteCustomer_sql \<longrightarrow>
      CustomerHandler rt cq r1 s1 =
        (if \<not> list_ex (\<lambda>c. Customer_ID c = int32 n1) (customer_table s1)
         then ((404, Text ''Customer not found''), s1)
         else if list_ex (\<lambda>v. Invoice_CustomerID v = int32 n1) (invoice_table s1)
         then ((409, Text ''cannot delete customer: customer is referenced in the invoice table''), s1)
         else ((204, NoBody),
               s1\<lparr>customer_table := filter (\<lambda>c. Customer_ID c \<noteq> int32 n1) (customer_table s1)\<rparr>))) \<and>
   (Method r2 = MethodDelete \<and> ExtractTrailingID (Path r2) = Some n2 \<and>
    DeleteProduct pq = DeleteProduct_sql \<longrightarrow>
      ProductHandler rt pq r2 s2 =
        (if \<not> list_ex (\<lambda>p. prow_id p = int32 n2) (product_table s2)
         then ((404, Text ''Product not found''), s2)
         else if list_ex (\<lambda>ii. InvoiceItem_ProductID ii = int32 n2) (invoice_item_table s2)
         then ((409, Text ''cannot delete product: product is referenced in the invoice_item table''), s2)
         else ((204, NoBody),
               s2\<lparr>product_table := filter (\<lambda>p. prow_id p \<noteq> int32 n2) (product_table s2)\<rparr>))) \<and>
   (Method r3 = MethodDelete \<and> pathSegments (Path r3) = [''api'', ''v1'', ''invoices'', iseg] \<and>
    Atoi iseg = Some n3 \<and> DeleteInvoice iq = DeleteInvoice_sql \<longrightarrow>
      InvoiceHandler rt iq r3 s3 =
        (if \<not> list_ex (\<lambda>v. Invoice_ID v = int32 n3) (invoice_table s3)
         then ((404, Text ''Invoice not found''), s3)
         else if list_ex (\<lambda>ii. InvoiceItem_InvoiceID ii = int32 n3) (invoice_item_table s3)
         then ((409, Text ''cannot delete invoice: invoice is referenced in the invoice_item table''), s3)
         else ((204, NoBody),
               s3\<lparr>invoice_table := filter (\<lambda>v. Invoice_ID v \<noteq> int32 n3) (invoice_table s3)\<rparr>)))"
proof (intro conjI impI)
  assume "Method r1 = MethodDelete \<and> ExtractTrailingID (Path r1) = Some n1 \<and>
    DeleteCustomer cq = DeleteCustomer_sql"
  then show "CustomerHandler rt cq r1 s1 =
        (if \<not> list_ex (\<lambda>c. Customer_ID c = int32 n1) (customer_table s1)
         then ((404, Text ''Customer not found''), s1)
         else if list_ex (\<lambda>v. Invoice_CustomerID v = int32 n1) (invoice_table s1)
         then ((409, Text ''cannot delete customer: customer is referenced in the invoice table''), s1)
         else ((204, NoBody),
               s1\<lparr>customer_table := filter (\<lambda>c. Customer_ID c \<noteq> int32 n1) (customer_table s1)\<rparr>))"
    by (simp add: CustomerHandler_def method_defs DeleteCustomer_sql_outcomes writer_defs status_defs)
next
  assume "Method r2 = MethodDelete \<and> ExtractTrailingID (Path r2) = Some n2 \<and>
    DeleteProduct pq = DeleteProduct_sql"
  then show "ProductHandler rt pq r2 s2 =
        (if \<not> list_ex (\<lambda>p. prow_id p = int32 n2) (product_table s2)
         then ((404, Text ''Product not found''), s2)
         else if list_ex (\<lambda>ii. InvoiceItem_ProductID ii = int32 n2) (invoice_item_table s2)
         then ((409, Text ''cannot delete product: product is referenced in the invoice_item table''), s2)
         else ((204, NoBody),
               s2\<lparr>product_table := filter (\<lambda>p. prow_id p \<noteq> int32 n2) (product_table s2)\<rparr>))"
    by (simp add: ProductHandler_def method_defs DeleteProduct_sql_outcomes writer_defs status_defs)
next
  assume a: "Method r3 = MethodDelete \<and> pathSegments (Path r3) = [''api'', ''v1'', ''invoices'', iseg] \<and>
    Atoi iseg = Some n3 \<and> DeleteInvoice iq = DeleteInvoice_sql"
  then have "InvoiceHandler rt iq r3 s3 = invoiceOnlyBranch rt iq r3 n3 s3"
    by (simp add: InvoiceHandler_invoice_path)
  with a show "InvoiceHandler rt iq r3 s3 =
        (if \<not> list_ex (\<lambda>v. Invoice_ID v = int32 n3) (invoice_table s3)
         then ((404, Text ''Invoice not found''), s3)
         else if list_ex (\<lambda>ii. InvoiceItem_InvoiceID ii = int32 n3) (invoice_item_table s3)
         then ((409, Text ''cannot delete invoice: invoice is referenced in the invoice_item table''), s3)
         else ((204, NoBody),
               s3\<lparr>invoice_table := filter (\<lambda>v. Invoice_ID v \<noteq> int32 n3) (invoice_table s3)\<rparr>))"
    by (simp add: invoiceOnlyBranch_def method_defs DeleteInvoice_sql_outcomes writer_defs status_defs)
qed

lemma ExtractTrailingID_customers_2: "ExtractTrailingID ''/api/v1/customers/2'' = Some 2"
  by (simp add: ExtractTrailingID_def Atoi_def isDigit_def)

lemma ExtractTrailingID_customers_3: "ExtractTrailingID ''/api/v1/customers/3'' = Some 3"
  by (simp add: ExtractTrailingID_def Atoi_def isDigit_def)

lemma int32_small: "int32 2 = 2" "int32 3 = 3"
  by (simp_all add: int32_def)

text \<open>The three outcomes on the stores of the scenario.\<close>

theorem delete_has_three_outcomes_witness:
  "CustomerHandler stubRuntime sqlCustomerQueries (request MethodDelete ''/api/v1/customers/1'') shopStore =
     ((409, Text ''cannot delete customer: customer is referenced in the invoice table''), shopStore) \<and>
   ProductHandler stubRuntime sqlProductQueries (request MethodDelete ''/api/v1/products/1'')
       shopStoreWithItem =
     ((409, Text ''cannot delete product: product is referenced in the invoice_item table''),
      shopStoreWithItem) \<and>
   InvoiceHandler stubRuntime sqlInvoiceQueries (request MethodDelete ''/api/v1/invoices/1'')
       shopStoreWithItem =
     ((409, Text ''cannot delete invoice: invoice is referenced in the invoice_item table''),
      shopStoreWithItem) \<and>
   CustomerHandler stubRuntime sqlCustomerQueries (request MethodDelete ''/api/v1/customers/3'') shopStore =
     ((404, Text ''Customer not found''), shopStore) \<and>
   fst (CustomerHandler stubRuntime sqlCustomerQueries (request MethodDelete ''/api/v1/customers/2'')
          shopStore) = (204, NoBody) \<and>
   map Customer_ID (customer_table (snd (CustomerHandler stubRuntime sqlCustomerQueries
          (request MethodDelete ''/api/v1/customers/2'') shopStore))) = [1]"
  using
    delete_has_three_outcomes [where ?r1.0 = "request MethodDelete ''/api/v1/customers/1''"
      and ?n1.0 = 1 and cq = sqlCustomerQueries and ?s1.0 = shopStore and rt = stubRuntime
      and ?r2.0 = "request MethodDelete ''/api/v1/products/1''"
      and ?n2.0 = 1 and pq = sqlProductQueries and ?s2.0 = shopStoreWithItem
      and ?r3.0 = "request MethodDelete ''/api/v1/invoices/1''" and iseg = "''1''"
      and ?n3.0 = 1 and iq = sqlInvoiceQueries and ?s3.0 = shopStoreWithItem]
    delete_has_three_outcomes [where ?r1.0 = "request MethodDelete ''/api/v1/customers/3''"
      and ?n1.0 = 3 and cq = sqlCustomerQueries and ?s1.0 = shopStore and rt = stubRuntime]
    delete_has_three_outcomes [where ?r1.0 = "request MethodDelete ''/api/v1/customers/2''"
      and ?n1.0 = 2 and cq = sqlCustomerQueries and ?s1.0 = shopStore and rt = stubRuntime]
  by (simp add: request_def sqlCustomerQueries_def sqlProductQueries_def sqlInvoiceQueries_def
      ExtractTrailingID_customers_1 ExtractTrailingID_customers_2 ExtractTrailingID_customers_3
      ExtractTrailingID_products_1 pathSegments_invoices_1 Atoi_1 int32_1 int32_small
      shopStore_def shopStoreWithItem_def method_defs)

text \<open>
  Claim C3, at the failing input. The path number 4294967298 is accepted by
  \<^verbatim>\<open>Atoi\<close> and no customer has that id, so the claim asks 404 and an unchanged store.
  The conversion \<^verbatim>\<open>int32(id)\<close> wraps the number to 2: the code answers 204 and
  removes customer 2. The handlers of products and invoices convert in the same way.
\<close>

theorem delete_customer_path_number_wraps:
  "ExtractTrailingID ''/api/v1/customers/4294967298'' = Some 4294967298 \<and>
   list_ex (\<lambda>c. Customer_ID c = 4294967298) (customer_table shopStore) = False \<and>
   map Customer_ID (customer_table shopStore) = [1, 2] \<and>
   fst (CustomerHandler stubRuntime sqlCustomerQueries
          (request MethodDelete ''/api/v1/customers/4294967298'') shopStore) = (204, NoBody) \<and>
   map Customer_ID (customer_table (snd (CustomerHandler stubRuntime sqlCustomerQueries
          (request MethodDelete ''/api/v1/customers/4294967298'') shopStore))) = [1]"
  by (simp add: CustomerHandler_def request_def sqlCustomerQueries_def stubCustomerQueries_def
      ExtractTrailingID_def Atoi_def isDigit_def int32_def DeleteCustomer_sql_outcomes
      shopStore_def method_defs writer_defs status_defs)

section \<open>Listing an entity\<close>

lemma elems_manyRows: "elems (manyRows xs) = xs"
  by (simp add: manyRows_def)

lemma sorted_take_sort_key: "sorted (map f (take n (sort_key f xs)))"
  by (simp add: take_map [symmetric] sorted_wrt_take)

lemma Product_ID_scanProduct: "map Product_ID (map scanProduct xs) = map prow_id xs"
  by (simp add: scanProduct_def)

text \<open>
  Claim C8. With the list queries of \<^verbatim>\<open>query.sql\<close>, a list request for products,
  customers or invoices answers 200 with the first 100 rows of the table in ascending
  order of id: at most 100 rows, sorted by id, and the store is unchanged.
\<close>

theorem list_returns_first_100_by_id:
  "(Method r1 = MethodGet \<and> ListProducts pq = ListProducts_sql \<longrightarrow>
      ProductsHandler rt pq r1 s1 =
        ((200, Json (JArr (map productResponse
            (map scanProduct (take 100 (sort_key prow_id (product_table s1))))))), s1) \<and>
      length (take 100 (sort_key prow_id (product_table s1))) \<le> 100 \<and>
      sorted (map Product_ID (map scanProduct (take 100 (sort_key prow_id (product_table s1)))))) \<and>
   (Method r2 = MethodGet \<and> ListCustomers cq = ListCustomers_sql \<longrightarrow>
      CustomersHandler rt cq r2 s2 =
        ((200, Json (JArr (map customerResponse
            (take 100 (sort_key Customer_ID (customer_table s2)))))), s2) \<and>
      length (take 100 (sort_key Customer_ID (customer_table s2))) \<le> 100 \<and>
      sorted (map Customer_ID (take 100 (sort_key Customer_ID (customer_table s2))))) \<and>
   (Method r3 = MethodGet \<and> ListInvoices iq = ListInvoices_sql \<longrightarrow>
      InvoicesHandler rt iq r3 s3 =
        ((200, Json (JArr (map (\<lambda>i. invoiceResponse (Invoice_ID i) (Invoice_InvoiceNumber i)
                                     (Invoice_InvoiceDate i) (Invoice_CustomerID i))
            (take 100 (sort_key Invoice_ID (invoice_table s3)))))), s3) \<and>
      length (take 100 (sort_key Invoice_ID (invoice_table s3))) \<le> 100 \<and>
      sorted (map Invoice_ID (take 100 (sort_key Invoice_ID (invoice_table s3)))))"
proof (intro conjI impI)
  assume "Method r1 = MethodGet \<and> ListProducts pq = ListProducts_sql"
  then show "ProductsHandler rt pq r1 s1 =
        ((200, Json (JArr (map productResponse
            (map scanProduct (take 100 (sort_key prow_id (product_table s1))))))), s1)"
    by (simp add: ProductsHandler_def ListProducts_sql_def json_slice_foldl elems_manyRows
        writeServerResponse_def StatusOK_def)
next
  show "sorted (map Product_ID (map scanProduct (take 100 (sort_key prow_id (product_table s1)))))"
    by (simp only: Product_ID_scanProduct sorted_take_sort_key)
next
  assume "Method r2 = MethodGet \<and> ListCustomers cq = ListCustomers_sql"
  then show "CustomersHandler rt cq r2 s2 =
        ((200, Json (JArr (map customerResponse
            (take 100 (sort_key Customer_ID (customer_table s2)))))), s2)"
    by (simp add: CustomersHandler_def ListCustomers_sql_def json_slice_foldl elems_manyRows
        writeServerResponse_def StatusOK_def)
next
  show "sorted (map Customer_ID (take 100 (sort_key Customer_ID (customer_table s2))))"
    by (rule sorted_take_sort_key)
next
  assume "Method r3 = MethodGet \<and> ListInvoices iq = ListInvoices_sql"
  then show "InvoicesHandler rt iq r3 s3 =
        ((200, Json (JArr (map (\<lambda>i. invoiceResponse (Invoice_ID i) (Invoice_InvoiceNumber i)
                                     (Invoice_InvoiceDate i) (Invoice_CustomerID i))
            (take 100 (sort_key Invoice_ID (invoice_table s3)))))), s3)"
    by (simp add: InvoicesHandler_def ListInvoices_sql_def json_slice_foldl elems_manyRows
        writeServerResponse_def StatusOK_def)
next
  show "sorted (map Invoice_ID (take 100 (sort_key Invoice_ID (invoice_table s3))))"
    by (rule sorted_take_sort_key)
qed simp_all

text \<open>The three lists on the store of the scenario; product 1 is stored after product 2 and listed first.\<close>

theorem list_returns_first_100_by_id_witness:
  "fst (ProductsHandler stubRuntime sqlProductQueries (request MethodGet ''/api/v1/products'') shopStore) =
     (200, Json (JArr (map productResponse
        [\<lparr>Product_ID = 1, Product_Name = ''Mouse'', Product_Description = None,
          Product_Price = numericText 22200, Product_AvailableItems = 22\<rparr>,
         \<lparr>Product_ID = 2, Product_Name = ''Keyboard'', Product_Description = None,
          Product_Price = numericText 5021, Product_AvailableItems = 33\<rparr>]))) \<and>
   fst (CustomersHandler stubRuntime sqlCustomerQueries (request MethodGet ''/api/v1/customers'') shopStore) =
     (200, Json (JArr (map customerResponse (customer_table shopStore)))) \<and>
   fst (InvoicesHandler stubRuntime sqlInvoiceQueries (request MethodGet ''/api/v1/invoices'') shopStore) =
     (200, Json (JArr [invoiceResponse 1 ''INV-1'' 1000 1]))"
  using list_returns_first_100_by_id [where ?r1.0 = "request MethodGet ''/api/v1/products''"
      and pq = sqlProductQueries and ?s1.0 = shopStore and rt = stubRuntime
      and ?r2.0 = "request MethodGet ''/api/v1/customers''" and cq = sqlCustomerQueries
      and ?s2.0 = shopStore
      and ?r3.0 = "request MethodGet ''/api/v1/invoices''" and iq = sqlInvoiceQueries
      and ?s3.0 = shopStore]
  by (simp add: request_def sqlProductQueries_def sqlCustomerQueries_def sqlInvoiceQueries_def
      shopStore_def scanProduct_def)

section \<open>Adding a product to an invoice\<close>

lemma filter_map_set_count:
  "filter (samePair i p) (map (\<lambda>ii. if samePair i p ii then ii\<lparr>InvoiceItem_Count := c\<rparr> else ii) xs) =
   map (\<lambda>ii. ii\<lparr>InvoiceItem_Count := c\<rparr>) (filter (samePair i p) xs)"
  by (induction xs) (auto simp: samePair_def)

lemma filter_map_set_count_others:
  "filter (\<lambda>ii. \<not> samePair i p ii)
     (map (\<lambda>ii. if samePair i p ii then ii\<lparr>InvoiceItem_Count := c\<rparr> else ii) xs) =
   filter (\<lambda>ii. \<not> samePair i p ii) xs"
  by (induction xs) (auto simp: samePair_def)

lemma find_None_filter: "find P xs = None \<longleftrightarrow> filter P xs = []"
  by (induction xs) auto

lemma find_Some_filter: "find P xs = Some x \<Longrightarrow> \<exists>rest. filter P xs = x # rest"
  by (induction xs) (auto split: if_splits)

text \<open>The store query on a pair that has a row, and on a pair that has none.\<close>

lemma AddProductToInvoice_sql_existing:
  assumes "0 < c" and "find (samePair i p) (invoice_item_table st) = Some old"
  shows "AddProductToInvoice_sql (i, p, c) st =
           (Inr (old\<lparr>InvoiceItem_Count := c\<rparr>),
            st\<lparr>invoice_item_id_seq := invoice_item_id_seq st + 1,
               invoice_item_table :=
                 map (\<lambda>ii. if samePair i p ii then ii\<lparr>InvoiceItem_Count := c\<rparr> else ii)
                     (invoice_item_table st)\<rparr>)"
  using assms by (simp add: AddProductToInvoice_sql_def Let_def)

lemma AddProductToInvoice_sql_new:
  assumes "0 < c" and "find (samePair i p) (invoice_item_table st) = None"
    and "list_ex (\<lambda>v. Invoice_ID v = i) (invoice_table st)"
    and "list_ex (\<lambda>r. prow_id r = p) (product_table st)"
  shows "AddProductToInvoice_sql (i, p, c) st =
           (Inr \<lparr>InvoiceItem_ID = invoice_item_id_seq st, InvoiceItem_InvoiceID = i,
                 InvoiceItem_ProductID = p, InvoiceItem_Count = c\<rparr>,
            st\<lparr>invoice_item_id_seq := invoice_item_id_seq st + 1,
               invoice_item_table := invoice_item_table st @
                 [\<lparr>InvoiceItem_ID = invoice_item_id_seq st, InvoiceItem_InvoiceID = i,
                   InvoiceItem_ProductID = p, InvoiceItem_Count = c\<rparr>]\<rparr>)"
  using assms by (simp add: AddProductToInvoice_sql_def Let_def)

text \<open>The upsert request: the handler's answer for a positive count is the store's.\<close>

lemma upsert_request:
  assumes "Method r = MethodPost"
    and "pathSegments (Path r) = [''api'', ''v1'', ''invoices'', iseg, ''products'', pseg]"
    and "Atoi iseg = Some i" and "Atoi pseg = Some p"
    and "decodeCreateInvoiceItem rt (Body r) = Some \<lparr>cii_Count = c\<rparr>" and "0 < c"
    and "AddProductToInvoice q (int32 i, int32 p, c) st = (Inr item, st')"
  shows "InvoiceHandler rt q r st = ((201, Json (invoiceItemResponse item)), st')"
proof -
  have "InvoiceHandler rt q r st = invoiceProductBranch rt q r i pseg st"
    using assms by (simp add: InvoiceHandler_product_path)
  with assms show ?thesis
    by (simp add: invoiceProductBranch_def method_defs writeServerResponse_def StatusCreated_def)
qed


lemma find_map_set_count:
  "find (samePair i p) (map (\<lambda>ii. if samePair i p ii then ii\<lparr>InvoiceItem_Count := c\<rparr> else ii) xs) =
   map_option (\<lambda>ii. ii\<lparr>InvoiceItem_Count := c\<rparr>) (find (samePair i p) xs)"
  by (induction xs) (auto simp: samePair_def)

lemma map_set_count_twice:
  "map (\<lambda>ii. if samePair i p ii then ii\<lparr>InvoiceItem_Count := c\<rparr> else ii)
     (map (\<lambda>ii. if samePair i p ii then ii\<lparr>InvoiceItem_Count := c\<rparr> else ii) xs) =
   map (\<lambda>ii. if samePair i p ii then ii\<lparr>InvoiceItem_Count := c\<rparr> else ii) xs"
  by (induction xs) (auto simp: samePair_def)

lemma find_append_new: "find P xs = None \<Longrightarrow> P x \<Longrightarrow> find P (xs @ [x]) = Some x"
  by (induction xs) (auto split: if_splits)

lemma map_set_count_absent:
  "find (samePair i p) xs = None \<Longrightarrow>
   map (\<lambda>ii. if samePair i p ii then ii\<lparr>InvoiceItem_Count := c\<rparr> else ii) xs = xs"
  by (induction xs) (auto split: if_splits)

text \<open>Two equal upserts in a row, on the store.\<close>

lemma AddProductToInvoice_sql_twice:
  assumes c: "0 < c"
    and inv: "list_ex (\<lambda>v. Invoice_ID v = i) (invoice_table st)"
    and prod: "list_ex (\<lambda>r. prow_id r = p) (product_table st)"
    and uniq: "length (filter (samePair i p) (invoice_item_table st)) \<le> 1"
  shows "\<exists>item st1 st2.
           AddProductToInvoice_sql (i, p, c) st = (Inr item, st1) \<and>
           AddProductToInvoice_sql (i, p, c) st1 = (Inr item, st2) \<and>
           map InvoiceItem_Count (filter (samePair i p) (invoice_item_table st2)) = [c] \<and>
           invoice_item_table st2 = invoice_item_table st1"
proof (cases "find (samePair i p) (invoice_item_table st)")
  case None
  define row where "row = \<lparr>InvoiceItem_ID = invoice_item_id_seq st, InvoiceItem_InvoiceID = i,
                 InvoiceItem_ProductID = p, InvoiceItem_Count = c\<rparr>"
  define st1 where "st1 = st\<lparr>invoice_item_id_seq := invoice_item_id_seq st + 1,
               invoice_item_table := invoice_item_table st @ [row]\<rparr>"
  define st2 where "st2 = st1\<lparr>invoice_item_id_seq := invoice_item_id_seq st1 + 1,
               invoice_item_table :=
                 map (\<lambda>ii. if samePair i p ii then ii\<lparr>InvoiceItem_Count := c\<rparr> else ii)
                     (invoice_item_table st1)\<rparr>"
  have first: "AddProductToInvoice_sql (i, p, c) st = (Inr row, st1)"
    using AddProductToInvoice_sql_new [OF c None inv prod] by (simp add: row_def st1_def)
  have hit: "samePair i p row"
    by (simp add: samePair_def row_def)
  have found: "find (samePair i p) (invoice_item_table st1) = Some row"
    using None hit by (simp add: st1_def find_append_new)
  have same: "row\<lparr>InvoiceItem_Count := c\<rparr> = row"
    by (simp add: row_def)
  have second: "AddProductToInvoice_sql (i, p, c) st1 = (Inr row, st2)"
    using AddProductToInvoice_sql_existing [OF c found] by (simp add: st2_def same)
  have tables: "invoice_item_table st2 = invoice_item_table st1"
    using None hit by (simp add: st2_def st1_def map_set_count_absent same)
  have "filter (samePair i p) (invoice_item_table st) = []"
    using None by (simp add: find_None_filter)
  then have "filter (samePair i p) (invoice_item_table st2) = [row]"
    using hit by (simp add: tables st1_def)
  then have "map InvoiceItem_Count (filter (samePair i p) (invoice_item_table st2)) = [c]"
    by (simp add: row_def)
  with first second tables show ?thesis
    by (intro exI conjI) assumption+
next
  case (Some old)
  define upd where "upd = (\<lambda>ii. if samePair i p ii then ii\<lparr>InvoiceItem_Count := c\<rparr> else ii)"
  define st1 where "st1 = st\<lparr>invoice_item_id_seq := invoice_item_id_seq st + 1,
               invoice_item_table := map upd (invoice_item_table st)\<rparr>"
  define st2 where "st2 = st1\<lparr>invoice_item_id_seq := invoice_item_id_seq st1 + 1,
               invoice_item_table := map upd (invoice_item_table st1)\<rparr>"
  have first: "AddProductToInvoice_sql (i, p, c) st = (Inr (old\<lparr>InvoiceItem_Count := c\<rparr>), st1)"
    using AddProductToInvoice_sql_existing [OF c Some] by (simp add: st1_def upd_def)
  have found: "find (samePair i p) (invoice_item_table st1) = Some (old\<lparr>InvoiceItem_Count := c\<rparr>)"
    using Some by (simp add: st1_def upd_def find_map_set_count)
  have second: "AddProductToInvoice_sql (i, p, c) st1 = (Inr (old\<lparr>InvoiceItem_Count := c\<rparr>), st2)"
    using AddProductToInvoice_sql_existing [OF c found] by (simp add: st2_def upd_def)
  have tables: "invoice_item_table st2 = invoice_item_table st1"
    by (simp add: st2_def st1_def upd_def map_set_count_twice)
  obtain rest where rest: "filter (samePair i p) (invoice_item_table st) = old # rest"
    using find_Some_filter [OF Some] by blast
  with uniq have "rest = []" by simp
  with rest have "filter (samePair i p) (invoice_item_table st1) = [old\<lparr>InvoiceItem_Count := c\<rparr>]"
    by (simp add: st1_def upd_def filter_map_set_count)
  then have "map InvoiceItem_Count (filter (samePair i p) (invoice_item_table st2)) = [c]"
    by (simp add: tables)
  with first second tables show ?thesis
    by (intro exI conjI) assumption+
qed

text \<open>
  Claim C2. For every invoice id, product id and count above 0, an upsert request
  whose pair already has a line item succeeds with 201, replaces the count of that
  line item by the new count and adds no row: the rows of the pair are the old ones
  with the new count, the rows of other pairs and the number of rows are as before.
  And in a store that holds the invoice and the product and at most one line item for
  the pair, the same request made twice succeeds twice with the same answer and leaves
  exactly one line item for the pair, with the requested count; the second request
  changes no line item.
\<close>

theorem upsert_replaces_count_and_is_idempotent:
  "(Method r = MethodPost \<and>
    pathSegments (Path r) = [''api'', ''v1'', ''invoices'', iseg, ''products'', pseg] \<and>
    Atoi iseg = Some i \<and> Atoi pseg = Some p \<and>
    decodeCreateInvoiceItem rt (Body r) = Some \<lparr>cii_Count = c\<rparr> \<and> 0 < c \<and>
    AddProductToInvoice q = AddProductToInvoice_sql \<and>
    find (samePair (int32 i) (int32 p)) (invoice_item_table st) = Some old \<longrightarrow>
      fst (InvoiceHandler rt q r st) = (201, Json (invoiceItemResponse (old\<lparr>InvoiceItem_Count := c\<rparr>))) \<and>
      filter (samePair (int32 i) (int32 p)) (invoice_item_table (snd (InvoiceHandler rt q r st))) =
        map (\<lambda>ii. ii\<lparr>InvoiceItem_Count := c\<rparr>)
            (filter (samePair (int32 i) (int32 p)) (invoice_item_table st)) \<and>
      filter (\<lambda>ii. \<not> samePair (int32 i) (int32 p) ii)
             (invoice_item_table (snd (InvoiceHandler rt q r st))) =
        filter (\<lambda>ii. \<not> samePair (int32 i) (int32 p) ii) (invoice_item_table st) \<and>
      length (invoice_item_table (snd (InvoiceHandler rt q r st))) = length (invoice_item_table st)) \<and>
   (Method r = MethodPost \<and>
    pathSegments (Path r) = [''api'', ''v1'', ''invoices'', iseg, ''products'', pseg] \<and>
    Atoi iseg = Some i \<and> Atoi pseg = Some p \<and>
    decodeCreateInvoiceItem rt (Body r) = Some \<lparr>cii_Count = c\<rparr> \<and> 0 < c \<and>
    AddProductToInvoice q = AddProductToInvoice_sql \<and>
    list_ex (\<lambda>v. Invoice_ID v = int32 i) (invoice_table st) \<and>
    list_ex (\<lambda>row. prow_id row = int32 p) (product_table st) \<and>
    length (filter (samePair (int32 i) (int32 p)) (invoice_item_table st)) \<le> 1 \<longrightarrow>
      (\<exists>item st1 st2.
         InvoiceHandler rt q r st = ((201, Json (invoiceItemResponse item)), st1) \<and>
         InvoiceHandler rt q r st1 = ((201, Json (invoiceItemResponse item)), st2) \<and>
         map InvoiceItem_Count
             (filter (samePair (int32 i) (int32 p)) (invoice_item_table st2)) = [c] \<and>
         invoice_item_table st2 = invoice_item_table st1))"
proof (intro conjI impI)
  assume a: "Method r = MethodPost \<and>
    pathSegments (Path r) = [''api'', ''v1'', ''invoices'', iseg, ''products'', pseg] \<and>
    Atoi iseg = Some i \<and> Atoi pseg = Some p \<and>
    decodeCreateInvoiceItem rt (Body r) = Some \<lparr>cii_Count = c\<rparr> \<and> 0 < c \<and>
    AddProductToInvoice q = AddProductToInvoice_sql \<and>
    find (samePair (int32 i) (int32 p)) (invoice_item_table st) = Some old"
  then have store: "AddProductToInvoice q (int32 i, int32 p, c) st =
      (Inr (old\<lparr>InvoiceItem_Count := c\<rparr>),
       st\<lparr>invoice_item_id_seq := invoice_item_id_seq st + 1,
          invoice_item_table :=
            map (\<lambda>ii. if samePair (int32 i) (int32 p) ii then ii\<lparr>InvoiceItem_Count := c\<rparr> else ii)
                (invoice_item_table st)\<rparr>)"
    by (simp add: AddProductToInvoice_sql_existing)
  have run: "InvoiceHandler rt q r st =
      ((201, Json (invoiceItemResponse (old\<lparr>InvoiceItem_Count := c\<rparr>))),
       st\<lparr>invoice_item_id_seq := invoice_item_id_seq st + 1,
          invoice_item_table :=
            map (\<lambda>ii. if samePair (int32 i) (int32 p) ii then ii\<lparr>InvoiceItem_Count := c\<rparr> else ii)
                (invoice_item_table st)\<rparr>)"
  proof (rule upsert_request [OF _ _ _ _ _ _ store])
    show "Method r = MethodPost" using a by simp
    show "pathSegments (Path r) = [''api'', ''v1'', ''invoices'', iseg, ''products'', pseg]"
      using a by simp
    show "Atoi iseg = Some i" using a by simp
    show "Atoi pseg = Some p" using a by simp
    show "decodeCreateInvoiceItem rt (Body r) = Some \<lparr>cii_Count = c\<rparr>" using a by simp
    show "0 < c" using a by simp
  qed
  show "fst (InvoiceHandler rt q r st) =
      (201, Json (invoiceItemResponse (old\<lparr>InvoiceItem_Count := c\<rparr>)))"
    by (simp add: run)
  show "filter (samePair (int32 i) (int32 p)) (invoice_item_table (snd (InvoiceHandler rt q r st))) =
        map (\<lambda>ii. ii\<lparr>InvoiceItem_Count := c\<rparr>)
            (filter (samePair (int32 i) (int32 p)) (invoice_item_table st))"
    by (simp add: run filter_map_set_count)
  show "filter (\<lambda>ii. \<not> samePair (int32 i) (int32 p) ii)
             (invoice_item_table (snd (InvoiceHandler rt q r st))) =
        filter (\<lambda>ii. \<not> samePair (int32 i) (int32 p) ii) (invoice_item_table st)"
    by (simp add: run filter_map_set_count_others)
  show "length (invoice_item_table (snd (InvoiceHandler rt q r st))) = length (invoice_item_table st)"
    by (simp add: run)
next
  assume a: "Method r = MethodPost \<and>
    pathSegments (Path r) = [''api'', ''v1'', ''invoices'', iseg, ''products'', pseg] \<and>
    Atoi iseg = Some i \<and> Atoi pseg = Some p \<and>
    decodeCreateInvoiceItem rt (Body r) = Some \<lparr>cii_Count = c\<rparr> \<and> 0 < c \<and>
    AddProductToInvoice q = AddProductToInvoice_sql \<and>
    list_ex (\<lambda>v. Invoice_ID v = int32 i) (invoice_table st) \<and>
    list_ex (\<lambda>row. prow_id row = int32 p) (product_table st) \<and>
    length (filter (samePair (int32 i) (int32 p)) (invoice_item_table st)) \<le> 1"
  then have "\<exists>item st1 st2.
           AddProductToInvoice_sql (int32 i, int32 p, c) st = (Inr item, st1) \<and>
           AddProductToInvoice_sql (int32 i, int32 p, c) st1 = (Inr item, st2) \<and>
           map InvoiceItem_Count
               (filter (samePair (int32 i) (int32 p)) (invoice_item_table st2)) = [c] \<and>
           invoice_item_table st2 = invoice_item_table st1"
    by (intro AddProductToInvoice_sql_twice) simp_all
  then obtain item st1 st2 where
    first: "AddProductToInvoice_sql (int32 i, int32 p, c) st = (Inr item, st1)" and
    second: "AddProductToInvoice_sql (int32 i, int32 p, c) st1 = (Inr item, st2)" and
    counts: "map InvoiceItem_Count
               (filter (samePair (int32 i) (int32 p)) (invoice_item_table st2)) = [c]" and
    tables: "invoice_item_table st2 = invoice_item_table st1"
    by (elim exE conjE)
  from a have req: "Method r = MethodPost"
      "pathSegments (Path r) = [''api'', ''v1'', ''invoices'', iseg, ''products'', pseg]"
      "Atoi iseg = Some i" "Atoi pseg = Some p"
      "decodeCreateInvoiceItem rt (Body r) = Some \<lparr>cii_Count = c\<rparr>" "0 < c"
    by simp_all
  from a first have call1: "AddProductToInvoice q (int32 i, int32 p, c) st = (Inr item, st1)"
    by simp
  from a second have call2: "AddProductToInvoice q (int32 i, int32 p, c) st1 = (Inr item, st2)"
    by simp
  have run1: "InvoiceHandler rt q r st = ((201, Json (invoiceItemResponse item)), st1)"
    by (rule upsert_request [OF req call1])
  have run2: "InvoiceHandler rt q r st1 = ((201, Json (invoiceItemResponse item)), st2)"
    by (rule upsert_request [OF req call2])
  from run1 run2 counts tables
  show "\<exists>item st1 st2.
         InvoiceHandler rt q r st = ((201, Json (invoiceItemResponse item)), st1) \<and>
         InvoiceHandler rt q r st1 = ((201, Json (invoiceItemResponse item)), st2) \<and>
         map InvoiceItem_Count
             (filter (samePair (int32 i) (int32 p)) (invoice_item_table st2)) = [c] \<and>
         invoice_item_table st2 = invoice_item_table st1"
    by (intro exI conjI) assumption+
qed


text \<open>Count 3 on the line item of the scenario, and count 5 twice on the store without line items.\<close>

theorem upsert_replaces_count_and_is_idempotent_witness:
  "fst (InvoiceHandler (createItemRuntime 3) sqlInvoiceQueries
          (request MethodPost ''/api/v1/invoices/1/products/1'') shopStoreWithItem) =
     (201, Json (invoiceItemResponse
        \<lparr>InvoiceItem_ID = 1, InvoiceItem_InvoiceID = 1, InvoiceItem_ProductID = 1,
         InvoiceItem_Count = 3\<rparr>)) \<and>
   invoice_item_table (snd (InvoiceHandler (createItemRuntime 3) sqlInvoiceQueries
          (request MethodPost ''/api/v1/invoices/1/products/1'') shopStoreWithItem)) =
     [\<lparr>InvoiceItem_ID = 1, InvoiceItem_InvoiceID = 1, InvoiceItem_ProductID = 1,
       InvoiceItem_Count = 3\<rparr>] \<and>
   invoice_item_table
     (snd (InvoiceHandler (createItemRuntime 5) sqlInvoiceQueries
             (request MethodPost ''/api/v1/invoices/1/products/1'')
             (snd (InvoiceHandler (createItemRuntime 5) sqlInvoiceQueries
                     (request MethodPost ''/api/v1/invoices/1/products/1'') shopStore)))) =
     [\<lparr>InvoiceItem_ID = 1, InvoiceItem_InvoiceID = 1, InvoiceItem_ProductID = 1,
       InvoiceItem_Count = 5\<rparr>]"
  using
    upsert_replaces_count_and_is_idempotent
      [where r = "request MethodPost ''/api/v1/invoices/1/products/1''" and iseg = "''1''"
         and pseg = "''1''" and i = 1 and p = 1 and c = 3 and rt = "createItemRuntime 3"
         and q = sqlInvoiceQueries and st = shopStoreWithItem
         and old = "\<lparr>InvoiceItem_ID = 1, InvoiceItem_InvoiceID = 1, InvoiceItem_ProductID = 1,
                     InvoiceItem_Count = 5\<rparr>"]
    upsert_replaces_count_and_is_idempotent
      [where r = "request MethodPost ''/api/v1/invoices/1/products/1''" and iseg = "''1''"
         and pseg = "''1''" and i = 1 and p = 1 and c = 5 and rt = "createItemRuntime 5"
         and q = sqlInvoiceQueries and st = shopStore]
  by (simp add: request_def createItemRuntime_def stubRuntime_def sqlInvoiceQueries_def
      stubInvoiceQueries_def pathSegments_invoices_1_products_1 Atoi_1 int32_1
      shopStore_def shopStoreWithItem_def samePair_def method_defs
      InvoiceHandler_def invoiceProductBranch_def AddProductToInvoice_sql_def Let_def
      writeServerResponse_def StatusCreated_def)

section \<open>Products of an invoice that does not exist\<close>

lemma Atoi_7: "Atoi ''7'' = Some 7"
  by (simp add: Atoi_def isDigit_def)

lemma int32_7: "int32 7 = 7"
  by (simp add: int32_def)

lemma pathSegments_invoices_7_products:
  "pathSegments ''/api/v1/invoices/7/products'' = [''api'', ''v1'', ''invoices'', ''7'', ''products'']"
  by (simp add: pathSegments_def)

lemma pathSegments_invoices_1_products:
  "pathSegments ''/api/v1/invoices/1/products'' = [''api'', ''v1'', ''invoices'', ''1'', ''products'']"
  by (simp add: pathSegments_def)

text \<open>The query never answers \<^verbatim>\<open>sql.ErrNoRows\<close>, the one error for which the handler
  has its 404 answer; a query object that does return it, as the mock of the tests
  does for an unknown invoice, gets the 404.\<close>

lemma ListProductsFromInvoice_sql_never_ErrNoRows:
  "fst (ListProductsFromInvoice_sql i st) \<noteq> Inl ErrNoRows"
  by (simp add: ListProductsFromInvoice_sql_def Let_def)

lemma products_of_invoice_ErrNoRows_is_404:
  "InvoiceHandler stubRuntime (failingInvoiceQueries ErrNoRows)
     (request MethodGet ''/api/v1/invoices/7/products'') () = ((404, Text ''Invoice not found''), ())"
  by (simp add: InvoiceHandler_def invoiceProductsBranch_def pathSegments_invoices_7_products
      Atoi_7 request_def failingInvoiceQueries_def stubInvoiceQueries_def httpError_def
      StatusNotFound_def)

text \<open>
  Claim C1, at the failing input. The store holds invoice 1 without line items and no
  invoice 7. The claim asks 404 for the products of invoice 7 and 200 with an empty
  list for those of invoice 1; the code answers both with 200 and an empty list,
  because the query joins line items and products only and never looks at table
  \<^verbatim>\<open>invoice\<close>.
\<close>

theorem products_of_missing_invoice_answer:
  "list_ex (\<lambda>v. Invoice_ID v = 1) (invoice_table shopStore) \<and>
   list_ex (\<lambda>v. Invoice_ID v = 7) (invoice_table shopStore) = False \<and>
   InvoiceHandler stubRuntime sqlInvoiceQueries (request MethodGet ''/api/v1/invoices/1/products'')
       shopStore = ((200, Json (JArr [])), shopStore) \<and>
   InvoiceHandler stubRuntime sqlInvoiceQueries (request MethodGet ''/api/v1/invoices/7/products'')
       shopStore = ((200, Json (JArr [])), shopStore)"
  by (simp add: InvoiceHandler_def invoiceProductsBranch_def pathSegments_invoices_7_products
      pathSegments_invoices_1_products Atoi_7 Atoi_1 int32_7 int32_1 request_def
      sqlInvoiceQueries_def stubInvoiceQueries_def ListProductsFromInvoice_sql_def joinedRows_def
      manyRows_def json_slice_def writeServerResponse_def StatusOK_def shopStore_def method_defs)

section \<open>Constraint failures the store reports\<close>

text \<open>The failures each modelled query can report that name a constraint.\<close>

lemma CreateInvoice_sql_failures:
  assumes "CreateInvoice_sql pg params st = (Inl (PqError code k), st')" and "k \<noteq> []"
  shows "(code = ''23505'' \<and> k = ''invoice_invoice_number_key'') \<or>
         (code = ''23503'' \<and> k = ''invoice_customer_id_fkey'')"
  using assms
  by (auto simp: CreateInvoice_sql_def Let_def split: sum.splits if_splits)

lemma UpdateInvoice_sql_failures:
  assumes "UpdateInvoice_sql pg params st = (Inl (PqError code k), st')" and "k \<noteq> []"
  shows "(code = ''23505'' \<and> k = ''invoice_invoice_number_key'') \<or>
         (code = ''23503'' \<and> k = ''invoice_customer_id_fkey'')"
  using assms
  by (auto simp: UpdateInvoice_sql_def Let_def split: sum.splits if_splits)

lemma AddProductToInvoice_sql_failures:
  assumes "AddProductToInvoice_sql (i, p, c) st = (Inl (PqError code k), st')" and "0 < c"
  shows "code = ''23503'' \<and>
         (k = ''invoice_item_product_id_fkey'' \<or> k = ''invoice_item_invoice_id_fkey'')"
  using assms
  by (auto simp: AddProductToInvoice_sql_def Let_def split: option.splits if_splits)

lemma DeleteCustomer_sql_failures:
  assumes "DeleteCustomer_sql i st = (Inl (PqError code k), st')"
  shows "code = ''23503'' \<and> k = ''invoice_customer_id_fkey''"
  using assms by (auto simp: DeleteCustomer_sql_outcomes split: if_splits)

lemma DeleteProduct_sql_failures:
  assumes "DeleteProduct_sql i st = (Inl (PqError code k), st')"
  shows "code = ''23503'' \<and> k = ''invoice_item_product_id_fkey''"
  using assms by (auto simp: DeleteProduct_sql_outcomes split: if_splits)

lemma DeleteInvoice_sql_failures:
  assumes "DeleteInvoice_sql i st = (Inl (PqError code k), st')"
  shows "code = ''23503'' \<and> k = ''invoice_item_invoice_id_fkey''"
  using assms by (auto simp: DeleteInvoice_sql_outcomes split: if_splits)


text \<open>
  Claim C4. For every constraint failure the store reports to a handler, the answer is
  a function of the constraint that failed, and the same violation class gets different
  statuses for different constraints: a foreign-key violation is answered 400 for the
  customer reference of an invoice, 404 for the references of a line item, and 409 for
  a reference that blocks a delete. In particular, for the upsert of a line item the
  product reference is answered 404 "The provided product does not exist", the invoice
  reference 404 "The provided invoice does not exist", and a count of 0 or less 400
  before any store call. The queries on invoices, line items and the deletes are those
  of \<^verbatim>\<open>query.sql\<close>; for the writes of a product the query object is arbitrary.
  Table \<^verbatim>\<open>customer\<close> has no constraint a write can violate.
\<close>

theorem constraint_failures_are_answered_by_constraint:
  "(Method r = MethodPost \<and>
    pathSegments (Path r) = [''api'', ''v1'', ''invoices'', iseg, ''products'', pseg] \<and>
    Atoi iseg = Some i \<and> Atoi pseg = Some p \<and>
    decodeCreateInvoiceItem rt (Body r) = Some \<lparr>cii_Count = c\<rparr> \<and> 0 < c \<and>
    AddProductToInvoice iq = AddProductToInvoice_sql \<and>
    AddProductToInvoice_sql (int32 i, int32 p, c) st = (Inl (PqError code k), st') \<longrightarrow>
      (k = ''invoice_item_product_id_fkey'' \<or> k = ''invoice_item_invoice_id_fkey'') \<and>
      InvoiceHandler rt iq r st =
        (if k = ''invoice_item_product_id_fkey''
         then (404, Text ''The provided product does not exist'')
         else (404, Text ''The provided invoice does not exist''), st')) \<and>
   (Method r = MethodPost \<and>
    pathSegments (Path r) = [''api'', ''v1'', ''invoices'', iseg, ''products'', pseg] \<and>
    Atoi iseg = Some i \<and> Atoi pseg = Some p \<and>
    decodeCreateInvoiceItem rt (Body r) = Some \<lparr>cii_Count = c\<rparr> \<and> c \<le> 0 \<longrightarrow>
      InvoiceHandler rt iq r st = ((400, Text ''count must be greater than 0''), st)) \<and>
   (Method r2 = MethodPost \<and> decodeCreateInvoice rt (Body r2) = Some ci \<and>
    TrimSpace (ci_InvoiceNumber ci) \<noteq> [] \<and> 0 < ci_CustomerID ci \<and>
    CreateInvoice iq = CreateInvoice_sql pg \<and>
    CreateInvoice_sql pg (ci_InvoiceNumber ci,
                          (case ci_InvoiceDate ci of None \<Rightarrow> Now rt
                           | Some d \<Rightarrow> if d = 0 then Now rt else d),
                          ci_CustomerID ci) st = (Inl (PqError code k), st') \<and> k \<noteq> [] \<longrightarrow>
      (k = ''invoice_invoice_number_key'' \<or> k = ''invoice_customer_id_fkey'') \<and>
      InvoicesHandler rt iq r2 st =
        (if k = ''invoice_invoice_number_key''
         then (409, Text ''Invoice number must be unique'')
         else (400, Text ''Specified customer does not exist''), st')) \<and>
   (Method r3 = MethodPatch \<and> pathSegments (Path r3) = [''api'', ''v1'', ''invoices'', iseg3] \<and>
    Atoi iseg3 = Some n3 \<and> decodeUpdateInvoice rt (Body r3) = Some ui \<and>
    TrimSpace (ui_InvoiceNumber ui) \<noteq> [] \<and> ui_InvoiceDate ui \<noteq> 0 \<and> 0 < ui_CustomerID ui \<and>
    UpdateInvoice iq = UpdateInvoice_sql pg \<and>
    UpdateInvoice_sql pg (int32 n3, ui_InvoiceNumber ui, ui_InvoiceDate ui, ui_CustomerID ui) st =
      (Inl (PqError code k), st') \<and> k \<noteq> [] \<longrightarrow>
      (k = ''invoice_invoice_number_key'' \<or> k = ''invoice_customer_id_fkey'') \<and>
      InvoiceHandler rt iq r3 st =
        (if k = ''invoice_invoice_number_key''
         then (409, Text ''Invoice number must be unique'')
         else (400, Text ''Specified customer does not exist''), st')) \<and>
   (Method r4 = MethodDelete \<and> pathSegments (Path r4) = [''api'', ''v1'', ''invoices'', iseg4] \<and>
    Atoi iseg4 = Some n4 \<and> DeleteInvoice iq = DeleteInvoice_sql \<and>
    DeleteInvoice_sql (int32 n4) st = (Inl (PqError code k), st') \<longrightarrow>
      k = ''invoice_item_invoice_id_fkey'' \<and>
      InvoiceHandler rt iq r4 st =
        ((409, Text ''cannot delete invoice: invoice is referenced in the invoice_item table''), st')) \<and>
   (Method r5 = MethodDelete \<and> ExtractTrailingID (Path r5) = Some n5 \<and>
    DeleteCustomer cq = DeleteCustomer_sql \<and>
    DeleteCustomer_sql (int32 n5) st = (Inl (PqError code k), st') \<longrightarrow>
      k = ''invoice_customer_id_fkey'' \<and>
      CustomerHandler rt cq r5 st =
        ((409, Text ''cannot delete customer: customer is referenced in the invoice table''), st')) \<and>
   (Method r6 = MethodDelete \<and> ExtractTrailingID (Path r6) = Some n6 \<and>
    DeleteProduct pq = DeleteProduct_sql \<and>
    DeleteProduct_sql (int32 n6) st = (Inl (PqError code k), st') \<longrightarrow>
      k = ''invoice_item_product_id_fkey'' \<and>
      ProductHandler rt pq r6 st =
        ((409, Text ''cannot delete product: product is referenced in the invoice_item table''), st')) \<and>
   (Method r7 = MethodPost \<and> decodeCreateProduct rt (Body r7) = Some cp \<and>
    TrimSpace (cp_Name cp) \<noteq> [] \<and> TrimSpace (cp_Price cp) \<noteq> [] \<and> ParseFloatOk rt (cp_Price cp) \<and>
    0 \<le> cp_AvailableItems cp \<and>
    CreateProduct xq (cp_Name cp, NullString (cp_Description cp), cp_Price cp,
                      cp_AvailableItems cp) xs = (Inl (PqError code k), xs') \<longrightarrow>
      ProductsHandler rt xq r7 xs =
        (if k = ''product_available_items_check''
         then (400, Text ''available_items must be greater than or equal to 0'')
         else if k = ''product_price_check''
         then (400, Text ''price should be a positive number'')
         else (500, Text ''Internal server error''), xs')) \<and>
   (Method r8 = MethodPatch \<and> ExtractTrailingID (Path r8) = Some n8 \<and>
    decodeUpdateProduct rt (Body r8) = Some up \<and>
    TrimSpace (up_Name up) \<noteq> [] \<and> TrimSpace (up_Price up) \<noteq> [] \<and> ParseFloatOk rt (up_Price up) \<and>
    0 \<le> up_AvailableItems up \<and>
    UpdateProduct xq (int32 n8, up_Name up, NullString (up_Description up), up_Price up,
                      up_AvailableItems up) xs = (Inl (PqError code k), xs') \<longrightarrow>
      ProductHandler rt xq r8 xs =
        (if k = ''product_available_items_check''
         then (400, Text ''available_items must be greater than or equal to 0'')
         else (500, Text ''Internal server error''), xs'))"
proof (intro conjI impI)
  assume a: "Method r = MethodPost \<and>
    pathSegments (Path r) = [''api'', ''v1'', ''invoices'', iseg, ''products'', pseg] \<and>
    Atoi iseg = Some i \<and> Atoi pseg = Some p \<and>
    decodeCreateInvoiceItem rt (Body r) = Some \<lparr>cii_Count = c\<rparr> \<and> 0 < c \<and>
    AddProductToInvoice iq = AddProductToInvoice_sql \<and>
    AddProductToInvoice_sql (int32 i, int32 p, c) st = (Inl (PqError code k), st')"
  then have f: "code = ''23503'' \<and>
      (k = ''invoice_item_product_id_fkey'' \<or> k = ''invoice_item_invoice_id_fkey'')"
    using AddProductToInvoice_sql_failures [of "int32 i" "int32 p" c st code k st'] by simp
  then show "k = ''invoice_item_product_id_fkey'' \<or> k = ''invoice_item_invoice_id_fkey''"
    by simp
  from a have "InvoiceHandler rt iq r st = invoiceProductBranch rt iq r i pseg st"
    by (simp add: InvoiceHandler_product_path)
  with a f show "InvoiceHandler rt iq r st =
        (if k = ''invoice_item_product_id_fkey''
         then (404, Text ''The provided product does not exist'')
         else (404, Text ''The provided invoice does not exist''), st')"
    by (auto simp: invoiceProductBranch_def method_defs writer_defs status_defs)
next
  assume a: "Method r = MethodPost \<and>
    pathSegments (Path r) = [''api'', ''v1'', ''invoices'', iseg, ''products'', pseg] \<and>
    Atoi iseg = Some i \<and> Atoi pseg = Some p \<and>
    decodeCreateInvoiceItem rt (Body r) = Some \<lparr>cii_Count = c\<rparr> \<and> c \<le> 0"
  then have "InvoiceHandler rt iq r st = invoiceProductBranch rt iq r i pseg st"
    by (simp add: InvoiceHandler_product_path)
  with a show "InvoiceHandler rt iq r st = ((400, Text ''count must be greater than 0''), st)"
    by (simp add: invoiceProductBranch_def method_defs writer_defs status_defs)
next
  assume a: "Method r2 = MethodPost \<and> decodeCreateInvoice rt (Body r2) = Some ci \<and>
    TrimSpace (ci_InvoiceNumber ci) \<noteq> [] \<and> 0 < ci_CustomerID ci \<and>
    CreateInvoice iq = CreateInvoice_sql pg \<and>
    CreateInvoice_sql pg (ci_InvoiceNumber ci,
                          (case ci_InvoiceDate ci of None \<Rightarrow> Now rt
                           | Some d \<Rightarrow> if d = 0 then Now rt else d),
                          ci_CustomerID ci) st = (Inl (PqError code k), st') \<and> k \<noteq> []"
  then have call: "CreateInvoice_sql pg (ci_InvoiceNumber ci,
                          (case ci_InvoiceDate ci of None \<Rightarrow> Now rt
                           | Some d \<Rightarrow> if d = 0 then Now rt else d),
                          ci_CustomerID ci) st = (Inl (PqError code k), st')"
    and named: "k \<noteq> []"
    by simp_all
  have f: "(code = ''23505'' \<and> k = ''invoice_invoice_number_key'') \<or>
         (code = ''23503'' \<and> k = ''invoice_customer_id_fkey'')"
    by (rule CreateInvoice_sql_failures [OF call named])
  then show "k = ''invoice_invoice_number_key'' \<or> k = ''invoice_customer_id_fkey''"
    by blast
  have date: "(case ci_InvoiceDate ci of Some d \<Rightarrow> if \<not> IsZero d then d else Now rt
               | None \<Rightarrow> Now rt) =
              (case ci_InvoiceDate ci of None \<Rightarrow> Now rt
               | Some d \<Rightarrow> if d = 0 then Now rt else d)"
    by (simp add: IsZero_def split: option.split)
  from a f show "InvoicesHandler rt iq r2 st =
        (if k = ''invoice_invoice_number_key''
         then (409, Text ''Invoice number must be unique'')
         else (400, Text ''Specified customer does not exist''), st')"
    by (auto simp: InvoicesHandler_def method_defs writer_defs status_defs date)
next
  assume a: "Method r3 = MethodPatch \<and> pathSegments (Path r3) = [''api'', ''v1'', ''invoices'', iseg3] \<and>
    Atoi iseg3 = Some n3 \<and> decodeUpdateInvoice rt (Body r3) = Some ui \<and>
    TrimSpace (ui_InvoiceNumber ui) \<noteq> [] \<and> ui_InvoiceDate ui \<noteq> 0 \<and> 0 < ui_CustomerID ui \<and>
    UpdateInvoice iq = UpdateInvoice_sql pg \<and>
    UpdateInvoice_sql pg (int32 n3, ui_InvoiceNumber ui, ui_InvoiceDate ui, ui_CustomerID ui) st =
      (Inl (PqError code k), st') \<and> k \<noteq> []"
  then have call: "UpdateInvoice_sql pg (int32 n3, ui_InvoiceNumber ui, ui_InvoiceDate ui,
                          ui_CustomerID ui) st = (Inl (PqError code k), st')"
    and named: "k \<noteq> []"
    by simp_all
  have f: "(code = ''23505'' \<and> k = ''invoice_invoice_number_key'') \<or>
         (code = ''23503'' \<and> k = ''invoice_customer_id_fkey'')"
    by (rule UpdateInvoice_sql_failures [OF call named])
  then show "k = ''invoice_invoice_number_key'' \<or> k = ''invoice_customer_id_fkey''"
    by blast
  from a have "InvoiceHandler rt iq r3 st = invoiceOnlyBranch rt iq r3 n3 st"
    by (simp add: InvoiceHandler_invoice_path)
  with a f show "InvoiceHandler rt iq r3 st =
        (if k = ''invoice_invoice_number_key''
         then (409, Text ''Invoice number must be unique'')
         else (400, Text ''Specified customer does not exist''), st')"
    by (auto simp: invoiceOnlyBranch_def method_defs writer_defs status_defs IsZero_def)
next
  assume a: "Method r4 = MethodDelete \<and> pathSegments (Path r4) = [''api'', ''v1'', ''invoices'', iseg4] \<and>
    Atoi iseg4 = Some n4 \<and> DeleteInvoice iq = DeleteInvoice_sql \<and>
    DeleteInvoice_sql (int32 n4) st = (Inl (PqError code k), st')"
  then have f: "code = ''23503'' \<and> k = ''invoice_item_invoice_id_fkey''"
    using DeleteInvoice_sql_failures [of "int32 n4" st code k st'] by simp
  then show "k = ''invoice_item_invoice_id_fkey''" by simp
  from a have "InvoiceHandler rt iq r4 st = invoiceOnlyBranch rt iq r4 n4 st"
    by (simp add: InvoiceHandler_invoice_path)
  with a f show "InvoiceHandler rt iq r4 st =
        ((409, Text ''cannot delete invoice: invoice is referenced in the invoice_item table''), st')"
    by (simp add: invoiceOnlyBranch_def method_defs writer_defs status_defs)
next
  assume a: "Method r5 = MethodDelete \<and> ExtractTrailingID (Path r5) = Some n5 \<and>
    DeleteCustomer cq = DeleteCustomer_sql \<and>
    DeleteCustomer_sql (int32 n5) st = (Inl (PqError code k), st')"
  then have f: "code = ''23503'' \<and> k = ''invoice_customer_id_fkey''"
    using DeleteCustomer_sql_failures [of "int32 n5" st code k st'] by simp
  then show "k = ''invoice_customer_id_fkey''" by simp
  from a f show "CustomerHandler rt cq r5 st =
        ((409, Text ''cannot delete customer: customer is referenced in the invoice table''), st')"
    by (simp add: CustomerHandler_def method_defs writer_defs status_defs)
next
  assume a: "Method r6 = MethodDelete \<and> ExtractTrailingID (Path r6) = Some n6 \<and>
    DeleteProduct pq = DeleteProduct_sql \<and>
    DeleteProduct_sql (int32 n6) st = (Inl (PqError code k), st')"
  then have f: "code = ''23503'' \<and> k = ''invoice_item_product_id_fkey''"
    using DeleteProduct_sql_failures [of "int32 n6" st code k st'] by simp
  then show "k = ''invoice_item_product_id_fkey''" by simp
  from a f show "ProductHandler rt pq r6 st =
        ((409, Text ''cannot delete product: product is referenced in the invoice_item table''), st')"
    by (simp add: ProductHandler_def method_defs writer_defs status_defs)
next
  assume "Method r7 = MethodPost \<and> decodeCreateProduct rt (Body r7) = Some cp \<and>
    TrimSpace (cp_Name cp) \<noteq> [] \<and> TrimSpace (cp_Price cp) \<noteq> [] \<and> ParseFloatOk rt (cp_Price cp) \<and>
    0 \<le> cp_AvailableItems cp \<and>
    CreateProduct xq (cp_Name cp, NullString (cp_Description cp), cp_Price cp,
                      cp_AvailableItems cp) xs = (Inl (PqError code k), xs')"
  then show "ProductsHandler rt xq r7 xs =
        (if k = ''product_available_items_check''
         then (400, Text ''available_items must be greater than or equal to 0'')
         else if k = ''product_price_check''
         then (400, Text ''price should be a positive number'')
         else (500, Text ''Internal server error''), xs')"
    by (simp add: ProductsHandler_def method_defs writer_defs status_defs InternalServerErrorMsg_def)
next
  assume "Method r8 = MethodPatch \<and> ExtractTrailingID (Path r8) = Some n8 \<and>
    decodeUpdateProduct rt (Body r8) = Some up \<and>
    TrimSpace (up_Name up) \<noteq> [] \<and> TrimSpace (up_Price up) \<noteq> [] \<and> ParseFloatOk rt (up_Price up) \<and>
    0 \<le> up_AvailableItems up \<and>
    UpdateProduct xq (int32 n8, up_Name up, NullString (up_Description up), up_Price up,
                      up_AvailableItems up) xs = (Inl (PqError code k), xs')"
  then show "ProductHandler rt xq r8 xs =
        (if k = ''product_available_items_check''
         then (400, Text ''available_items must be greater than or equal to 0'')
         else (500, Text ''Internal server error''), xs')"
    by (simp add: ProductHandler_def method_defs writer_defs status_defs InternalServerErrorMsg_def)
qed


lemma TrimSpace_INV_2: "TrimSpace ''INV-2'' = ''INV-2''"
  by (simp add: TrimSpace_def asciiSpace_def space2_def space3_def)

text \<open>On the store of the scenario: a line item for an unknown product and one with
  count 0, an invoice for an unknown customer and one with the number of invoice 1,
  and the delete of customer 1, who has an invoice. The three foreign keys are
  answered 404, 400 and 409.\<close>

theorem constraint_failures_are_answered_by_constraint_witness:
  "InvoiceHandler (createItemRuntime 5) sqlInvoiceQueries
       (request MethodPost ''/api/v1/invoices/1/products/7'') shopStore =
     ((404, Text ''The provided product does not exist''),
      shopStore\<lparr>invoice_item_id_seq := 2\<rparr>) \<and>
   InvoiceHandler (createItemRuntime 0) sqlInvoiceQueries
       (request MethodPost ''/api/v1/invoices/1/products/1'') shopStore =
     ((400, Text ''count must be greater than 0''), shopStore) \<and>
   InvoicesHandler
       (createInvoiceRuntime \<lparr>ci_InvoiceNumber = ''INV-2'', ci_InvoiceDate = None, ci_CustomerID = 9\<rparr>)
       sqlInvoiceWrites (request MethodPost ''/api/v1/invoices'') shopStore =
     ((400, Text ''Specified customer does not exist''), shopStore\<lparr>invoice_id_seq := 3\<rparr>) \<and>
   InvoicesHandler
       (createInvoiceRuntime \<lparr>ci_InvoiceNumber = ''INV-1'', ci_InvoiceDate = None, ci_CustomerID = 1\<rparr>)
       sqlInvoiceWrites (request MethodPost ''/api/v1/invoices'') shopStore =
     ((409, Text ''Invoice number must be unique''), shopStore\<lparr>invoice_id_seq := 3\<rparr>) \<and>
   CustomerHandler stubRuntime sqlCustomerQueries (request MethodDelete ''/api/v1/customers/1'')
       shopStore =
     ((409, Text ''cannot delete customer: customer is referenced in the invoice table''), shopStore)"
  using
    constraint_failures_are_answered_by_constraint
      [where r = "request MethodPost ''/api/v1/invoices/1/products/7''" and iseg = "''1''"
         and pseg = "''7''" and i = 1 and p = 7 and c = 5 and rt = "createItemRuntime 5"
         and iq = sqlInvoiceQueries and st = shopStore and code = "''23503''"
         and k = "''invoice_item_product_id_fkey''"
         and st' = "shopStore\<lparr>invoice_item_id_seq := 2\<rparr>"]
    constraint_failures_are_answered_by_constraint
      [where r = "request MethodPost ''/api/v1/invoices/1/products/1''" and iseg = "''1''"
         and pseg = "''1''" and i = 1 and p = 1 and c = 0 and rt = "createItemRuntime 0"
         and iq = sqlInvoiceQueries and st = shopStore]
    constraint_failures_are_answered_by_constraint
      [where ?r2.0 = "request MethodPost ''/api/v1/invoices''"
         and ci = "\<lparr>ci_InvoiceNumber = ''INV-2'', ci_InvoiceDate = None, ci_CustomerID = 9\<rparr>"
         and rt = "createInvoiceRuntime \<lparr>ci_InvoiceNumber = ''INV-2'', ci_InvoiceDate = None, ci_CustomerID = 9\<rparr>"
         and iq = sqlInvoiceWrites and pg = plainPostgres and st = shopStore
         and code = "''23503''" and k = "''invoice_customer_id_fkey''"
         and st' = "shopStore\<lparr>invoice_id_seq := 3\<rparr>"]
    constraint_failures_are_answered_by_constraint
      [where ?r2.0 = "request MethodPost ''/api/v1/invoices''"
         and ci = "\<lparr>ci_InvoiceNumber = ''INV-1'', ci_InvoiceDate = None, ci_CustomerID = 1\<rparr>"
         and rt = "createInvoiceRuntime \<lparr>ci_InvoiceNumber = ''INV-1'', ci_InvoiceDate = None, ci_CustomerID = 1\<rparr>"
         and iq = sqlInvoiceWrites and pg = plainPostgres and st = shopStore
         and code = "''23505''" and k = "''invoice_invoice_number_key''"
         and st' = "shopStore\<lparr>invoice_id_seq := 3\<rparr>"]
    constraint_failures_are_answered_by_constraint
      [where ?r5.0 = "request MethodDelete ''/api/v1/customers/1''" and ?n5.0 = 1
         and cq = sqlCustomerQueries and rt = stubRuntime and st = shopStore and st' = shopStore
         and code = "''23503''" and k = "''invoice_customer_id_fkey''"]
  by (simp add: request_def createItemRuntime_def createInvoiceRuntime_def stubRuntime_def
      sqlInvoiceQueries_def sqlInvoiceWrites_def sqlCustomerQueries_def plainPostgres_def
      pathSegments_def Atoi_1 Atoi_7 int32_1 int32_7 TrimSpace_INV_1 TrimSpace_INV_2
      ExtractTrailingID_customers_1 shopStore_def samePair_def method_defs
      AddProductToInvoice_sql_def CreateInvoice_sql_def DeleteCustomer_sql_outcomes Let_def)

text \<open>The branches for creating and updating an invoice read the SQLSTATE code only.
  A query object that is not the store's and reports another constraint under the code,
  which the queries above never do, gets the answer of the code.\<close>

lemma invoice_create_answer_for_a_mock_error:
  "InvoicesHandler
     (createInvoiceRuntime \<lparr>ci_InvoiceNumber = ''INV-1'', ci_InvoiceDate = None, ci_CustomerID = 1\<rparr>)
     (failingInvoiceQueries (PqError ''23505'' ''invoice_pkey''))
     (request MethodPost ''/api/v1/invoices'') () =
       ((409, Text ''Invoice number must be unique''), ())"
  by (simp add: InvoicesHandler_def request_def createInvoiceRuntime_def stubRuntime_def
      failingInvoiceQueries_def stubInvoiceQueries_def TrimSpace_INV_1 method_defs httpError_def
      status_defs)

section \<open>Check constraints of a product\<close>

lemma TrimSpace_Mouse: "TrimSpace ''Mouse'' = ''Mouse''"
  by (simp add: TrimSpace_def asciiSpace_def space2_def space3_def)

lemma TrimSpace_minus_1: "TrimSpace ''-1'' = ''-1''"
  by (simp add: TrimSpace_def asciiSpace_def space2_def space3_def)

lemma TrimSpace_abc: "TrimSpace ''abc'' = ''abc''"
  by (simp add: TrimSpace_def asciiSpace_def space2_def space3_def)

lemma TrimSpace_empty: "TrimSpace [] = []"
  by (simp add: TrimSpace_def)

text \<open>
  Claim C5 as stated fails: on create, a violation of \<^verbatim>\<open>product_price_check\<close> (a
  price of -1 passes the handler's own tests) is answered 400 with a message that the
  pre-validation of the price never produces; its two messages are the ones for an
  empty and for an unparsable price.
\<close>

theorem product_price_check_message_is_its_own:
  "ProductsHandler
     (createProductRuntime \<lparr>cp_Name = ''Mouse'', cp_Description = [], cp_Price = ''-1'',
                             cp_AvailableItems = 1\<rparr> True)
     (failingProductQueries (PqError ''23514'' ''product_price_check''))
     (request MethodPost ''/api/v1/products'') () =
       ((400, Text ''price should be a positive number''), ()) \<and>
   ProductsHandler
     (createProductRuntime \<lparr>cp_Name = ''Mouse'', cp_Description = [], cp_Price = [],
                             cp_AvailableItems = 1\<rparr> True)
     (failingProductQueries (PqError ''23514'' ''product_price_check''))
     (request MethodPost ''/api/v1/products'') () =
       ((400, Text ''Product price is required''), ()) \<and>
   ProductsHandler
     (createProductRuntime \<lparr>cp_Name = ''Mouse'', cp_Description = [], cp_Price = ''abc'',
                             cp_AvailableItems = 1\<rparr> False)
     (failingProductQueries (PqError ''23514'' ''product_price_check''))
     (request MethodPost ''/api/v1/products'') () =
       ((400, Text ''Invalid price''), ())"
  by (simp add: ProductsHandler_def request_def createProductRuntime_def stubRuntime_def
      failingProductQueries_def stubProductQueries_def TrimSpace_Mouse TrimSpace_minus_1
      TrimSpace_abc TrimSpace_empty method_defs httpError_def status_defs)

text \<open>On update the same violation is not among the tested names and is answered 500.\<close>

lemma product_update_price_check_is_500:
  "ProductHandler
     (updateProductRuntime \<lparr>up_Name = ''Mouse'', up_Description = [], up_Price = ''-1'',
                             up_AvailableItems = 1\<rparr> True)
     (failingProductQueries (PqError ''23514'' ''product_price_check''))
     (request MethodPatch ''/api/v1/products/1'') () =
       ((500, Text ''Internal server error''), ())"
  by (simp add: ProductHandler_def request_def updateProductRuntime_def stubRuntime_def
      failingProductQueries_def stubProductQueries_def TrimSpace_Mouse TrimSpace_minus_1
      ExtractTrailingID_products_1 method_defs writer_defs status_defs InternalServerErrorMsg_def)

text \<open>
  Claim C5, amended. On create and on update of a product, a store-reported violation
  of \<^verbatim>\<open>product_available_items_check\<close> is answered 400 with the message
  "available_items must be greater than or equal to 0", the message of the handler's
  own test of a negative \<^verbatim>\<open>available_items\<close>. On create, a violation of
  \<^verbatim>\<open>product_price_check\<close> is answered 400 with the message "price should be a
  positive number".
\<close>

theorem product_check_violations_are_400:
  "(Method r = MethodPost \<and> decodeCreateProduct rt (Body r) = Some cp \<and>
    TrimSpace (cp_Name cp) \<noteq> [] \<and> TrimSpace (cp_Price cp) \<noteq> [] \<and> ParseFloatOk rt (cp_Price cp) \<and>
    0 \<le> cp_AvailableItems cp \<and>
    CreateProduct q (cp_Name cp, NullString (cp_Description cp), cp_Price cp,
                     cp_AvailableItems cp) st = (Inl (PqError code k), st') \<longrightarrow>
      ProductsHandler rt q r st =
        (if k = ''product_available_items_check''
         then (400, Text ''available_items must be greater than or equal to 0'')
         else if k = ''product_price_check''
         then (400, Text ''price should be a positive number'')
         else (500, Text ''Internal server error''), st')) \<and>
   (Method r = MethodPost \<and> decodeCreateProduct rt (Body r) = Some cp \<and>
    TrimSpace (cp_Name cp) \<noteq> [] \<and> TrimSpace (cp_Price cp) \<noteq> [] \<and> ParseFloatOk rt (cp_Price cp) \<and>
    cp_AvailableItems cp < 0 \<longrightarrow>
      ProductsHandler rt q r st =
        ((400, Text ''available_items must be greater than or equal to 0''), st)) \<and>
   (Method r2 = MethodPatch \<and> ExtractTrailingID (Path r2) = Some n \<and>
    decodeUpdateProduct rt (Body r2) = Some up \<and>
    TrimSpace (up_Name up) \<noteq> [] \<and> TrimSpace (up_Price up) \<noteq> [] \<and> ParseFloatOk rt (up_Price up) \<and>
    0 \<le> up_AvailableItems up \<and>
    UpdateProduct q (int32 n, up_Name up, NullString (up_Description up), up_Price up,
                     up_AvailableItems up) st =
      (Inl (PqError code ''product_available_items_check''), st') \<longrightarrow>
      ProductHandler rt q r2 st =
        ((400, Text ''available_items must be greater than or equal to 0''), st')) \<and>
   (Method r2 = MethodPatch \<and> ExtractTrailingID (Path r2) = Some n \<and>
    decodeUpdateProduct rt (Body r2) = Some up \<and>
    TrimSpace (up_Name up) \<noteq> [] \<and> TrimSpace (up_Price up) \<noteq> [] \<and> ParseFloatOk rt (up_Price up) \<and>
    up_AvailableItems up < 0 \<longrightarrow>
      ProductHandler rt q r2 st =
        ((400, Text ''available_items must be greater than or equal to 0''), st))"
proof (intro conjI impI)
  assume "Method r = MethodPost \<and> decodeCreateProduct rt (Body r) = Some cp \<and>
    TrimSpace (cp_Name cp) \<noteq> [] \<and> TrimSpace (cp_Price cp) \<noteq> [] \<and> ParseFloatOk rt (cp_Price cp) \<and>
    0 \<le> cp_AvailableItems cp \<and>
    CreateProduct q (cp_Name cp, NullString (cp_Description cp), cp_Price cp,
                     cp_AvailableItems cp) st = (Inl (PqError code k), st')"
  then show "ProductsHandler rt q r st =
        (if k = ''product_available_items_check''
         then (400, Text ''available_items must be greater than or equal to 0'')
         else if k = ''product_price_check''
         then (400, Text ''price should be a positive number'')
         else (500, Text ''Internal server error''), st')"
    by (simp add: ProductsHandler_def method_defs writer_defs status_defs InternalServerErrorMsg_def)
next
  assume "Method r = MethodPost \<and> decodeCreateProduct rt (Body r) = Some cp \<and>
    TrimSpace (cp_Name cp) \<noteq> [] \<and> TrimSpace (cp_Price cp) \<noteq> [] \<and> ParseFloatOk rt (cp_Price cp) \<and>
    cp_AvailableItems cp < 0"
  then show "ProductsHandler rt q r st =
        ((400, Text ''available_items must be greater than or equal to 0''), st)"
    by (simp add: ProductsHandler_def method_defs writer_defs status_defs)
next
  assume "Method r2 = MethodPatch \<and> ExtractTrailingID (Path r2) = Some n \<and>
    decodeUpdateProduct rt (Body r2) = Some up \<and>
    TrimSpace (up_Name up) \<noteq> [] \<and> TrimSpace (up_Price up) \<noteq> [] \<and> ParseFloatOk rt (up_Price up) \<and>
    0 \<le> up_AvailableItems up \<and>
    UpdateProduct q (int32 n, up_Name up, NullString (up_Description up), up_Price up,
                     up_AvailableItems up) st =
      (Inl (PqError code ''product_available_items_check''), st')"
  then show "ProductHandler rt q r2 st =
        ((400, Text ''available_items must be greater than or equal to 0''), st')"
    by (simp add: ProductHandler_def method_defs writer_defs status_defs)
next
  assume "Method r2 = MethodPatch \<and> ExtractTrailingID (Path r2) = Some n \<and>
    decodeUpdateProduct rt (Body r2) = Some up \<and>
    TrimSpace (up_Name up) \<noteq> [] \<and> TrimSpace (up_Price up) \<noteq> [] \<and> ParseFloatOk rt (up_Price up) \<and>
    up_AvailableItems up < 0"
  then show "ProductHandler rt q r2 st =
        ((400, Text ''available_items must be greater than or equal to 0''), st)"
    by (simp add: ProductHandler_def method_defs writer_defs status_defs)
qed

text \<open>The store rejecting \<^verbatim>\<open>available_items\<close>, and the handler rejecting -1, on create and on update.\<close>

theorem product_check_violations_are_400_witness:
  "ProductsHandler
     (createProductRuntime \<lparr>cp_Name = ''Mouse'', cp_Description = [], cp_Price = ''-1'',
                             cp_AvailableItems = 1\<rparr> True)
     (failingProductQueries (PqError ''23514'' ''product_available_items_check''))
     (request MethodPost ''/api/v1/products'') () =
       ((400, Text ''available_items must be greater than or equal to 0''), ()) \<and>
   ProductsHandler
     (createProductRuntime \<lparr>cp_Name = ''Mouse'', cp_Description = [], cp_Price = ''-1'',
                             cp_AvailableItems = - 1\<rparr> True)
     (failingProductQueries (PqError ''23514'' ''product_available_items_check''))
     (request MethodPost ''/api/v1/products'') () =
       ((400, Text ''available_items must be greater than or equal to 0''), ()) \<and>
   ProductHandler
     (updateProductRuntime \<lparr>up_Name = ''Mouse'', up_Description = [], up_Price = ''-1'',
                             up_AvailableItems = 1\<rparr> True)
     (failingProductQueries (PqError ''23514'' ''product_available_items_check''))
     (request MethodPatch ''/api/v1/products/1'') () =
       ((400, Text ''available_items must be greater than or equal to 0''), ()) \<and>
   ProductHandler
     (updateProductRuntime \<lparr>up_Name = ''Mouse'', up_Description = [], up_Price = ''-1'',
                             up_AvailableItems = - 1\<rparr> True)
     (failingProductQueries (PqError ''23514'' ''product_available_items_check''))
     (request MethodPatch ''/api/v1/products/1'') () =
       ((400, Text ''available_items must be greater than or equal to 0''), ())"
  using
    product_check_violations_are_400
      [where r = "request MethodPost ''/api/v1/products''"
         and cp = "\<lparr>cp_Name = ''Mouse'', cp_Description = [], cp_Price = ''-1'',
                    cp_AvailableItems = 1\<rparr>"
         and rt = "createProductRuntime \<lparr>cp_Name = ''Mouse'', cp_Description = [],
                    cp_Price = ''-1'', cp_AvailableItems = 1\<rparr> True"
         and q = "failingProductQueries (PqError ''23514'' ''product_available_items_check'')"
         and st = "()" and st' = "()" and code = "''23514''"
         and k = "''product_available_items_check''"]
    product_check_violations_are_400
      [where r = "request MethodPost ''/api/v1/products''"
         and cp = "\<lparr>cp_Name = ''Mouse'', cp_Description = [], cp_Price = ''-1'',
                    cp_AvailableItems = - 1\<rparr>"
         and rt = "createProductRuntime \<lparr>cp_Name = ''Mouse'', cp_Description = [],
                    cp_Price = ''-1'', cp_AvailableItems = - 1\<rparr> True"
         and q = "failingProductQueries (PqError ''23514'' ''product_available_items_check'')"
         and st = "()"]
    product_check_violations_are_400
      [where ?r2.0 = "request MethodPatch ''/api/v1/products/1''" and n = 1
         and up = "\<lparr>up_Name = ''Mouse'', up_Description = [], up_Price = ''-1'',
                    up_AvailableItems = 1\<rparr>"
         and rt = "updateProductRuntime \<lparr>up_Name = ''Mouse'', up_Description = [],
                    up_Price = ''-1'', up_AvailableItems = 1\<rparr> True"
         and q = "failingProductQueries (PqError ''23514'' ''product_available_items_check'')"
         and st = "()" and st' = "()" and code = "''23514''"]
    product_check_violations_are_400
      [where ?r2.0 = "request MethodPatch ''/api/v1/products/1''" and n = 1
         and up = "\<lparr>up_Name = ''Mouse'', up_Description = [], up_Price = ''-1'',
                    up_AvailableItems = - 1\<rparr>"
         and rt = "updateProductRuntime \<lparr>up_Name = ''Mouse'', up_Description = [],
                    up_Price = ''-1'', up_AvailableItems = - 1\<rparr> True"
         and q = "failingProductQueries (PqError ''23514'' ''product_available_items_check'')"
         and st = "()"]
  by (simp add: request_def createProductRuntime_def updateProductRuntime_def stubRuntime_def
      failingProductQueries_def stubProductQueries_def TrimSpace_Mouse TrimSpace_minus_1
      ExtractTrailingID_products_1 method_defs)

section \<open>Paths the invoice handler does not recognise\<close>

lemma Atoi_abc: "Atoi ''abc'' = None"
  by (simp add: Atoi_def isDigit_def)

text \<open>
  Claim C6 as stated fails: a path whose shape is none of the recognised ones is not
  always answered 404. The identifier is parsed before the shape is looked at, so a
  path with a non-numeric piece after \<^verbatim>\<open>invoices\<close> is answered 400 whatever follows.
\<close>

theorem unrecognised_invoice_path_is_400:
  "InvoiceHandler stubRuntime sqlInvoiceQueries (request MethodGet ''/api/v1/invoices/abc/x/y'')
       shopStore = ((400, Text ''Invalid invoice ID''), shopStore) \<and>
   InvoiceHandler stubRuntime sqlInvoiceQueries (request MethodGet ''/api/v1/invoices/abc/products/1/2'')
       shopStore = ((400, Text ''Invalid invoice ID''), shopStore)"
  by (simp add: InvoiceHandler_def pathSegments_def Atoi_abc request_def httpError_def
      StatusBadRequest_def)

text \<open>A piece other than \<^verbatim>\<open>products\<close> after the identifier is not looked at: the
  request reaches the methods of the single invoice.\<close>

lemma invoice_path_with_other_piece_reaches_invoice_methods:
  "pathSegments (Path r) = ''api'' # ''v1'' # ''invoices'' # iseg # seg # rest \<Longrightarrow>
   Atoi iseg = Some n \<Longrightarrow> seg \<noteq> ''products'' \<Longrightarrow>
   InvoiceHandler rt q r st = invoiceOnlyBranch rt q r n st"
  by (simp add: InvoiceHandler_def)

lemma delete_invoice_by_longer_path:
  "fst (InvoiceHandler stubRuntime sqlInvoiceQueries (request MethodDelete ''/api/v1/invoices/1/foo'')
          shopStore) = (204, NoBody) \<and>
   invoice_table (snd (InvoiceHandler stubRuntime sqlInvoiceQueries
          (request MethodDelete ''/api/v1/invoices/1/foo'') shopStore)) = []"
  by (simp add: InvoiceHandler_def invoiceOnlyBranch_def pathSegments_def Atoi_1 int32_1
      request_def sqlInvoiceQueries_def stubInvoiceQueries_def DeleteInvoice_sql_outcomes
      shopStore_def method_defs writer_defs status_defs)

text \<open>
  Claim C6, amended. For every path the invoice handler is given, with its non-empty
  pieces taken from the first piece \<^verbatim>\<open>invoices\<close> on: no such piece, or nothing after
  it, is answered 400 "Invalid invoice path"; a next piece that is not an integer is
  answered 400 "Invalid invoice ID"; an integer followed by \<^verbatim>\<open>products\<close> and two or
  more further pieces is answered 404 "Not found". In all these cases no store
  operation is called: the answer is the same for every query object and the store is
  unchanged.
\<close>

theorem invoice_path_rejections:
  "(indexOf (pathSegments (Path r)) ''invoices'' = None \<longrightarrow>
      InvoiceHandler rt q r st = ((400, Text ''Invalid invoice path''), st)) \<and>
   (indexOf (pathSegments (Path r)) ''invoices'' = Some k \<and>
    length (pathSegments (Path r)) \<le> k + 1 \<longrightarrow>
      InvoiceHandler rt q r st = ((400, Text ''Invalid invoice path''), st)) \<and>
   (indexOf (pathSegments (Path r)) ''invoices'' = Some k \<and>
    k + 1 < length (pathSegments (Path r)) \<and>
    Atoi (pathSegments (Path r) ! (k + 1)) = None \<longrightarrow>
      InvoiceHandler rt q r st = ((400, Text ''Invalid invoice ID''), st)) \<and>
   (indexOf (pathSegments (Path r)) ''invoices'' = Some k \<and>
    Atoi (pathSegments (Path r) ! (k + 1)) = Some n \<and>
    pathSegments (Path r) ! (k + 2) = ''products'' \<and>
    k + 4 < length (pathSegments (Path r)) \<longrightarrow>
      InvoiceHandler rt q r st = ((404, Text ''Not found''), st))"
  by (simp add: InvoiceHandler_def Let_def httpError_def status_defs)

lemma pathSegments_invoices_1_products_1_2:
  "pathSegments ''/api/v1/invoices/1/products/1/2'' =
     [''api'', ''v1'', ''invoices'', ''1'', ''products'', ''1'', ''2'']"
  by (simp add: pathSegments_def)

lemma pathSegments_invoices_abc:
  "pathSegments ''/api/v1/invoices/abc'' = [''api'', ''v1'', ''invoices'', ''abc'']"
  by (simp add: pathSegments_def)

lemma pathSegments_invoices_slash:
  "pathSegments ''/api/v1/invoices/'' = [''api'', ''v1'', ''invoices'']"
  by (simp add: pathSegments_def)

lemma pathSegments_health: "pathSegments ''/api/v1/health'' = [''api'', ''v1'', ''health'']"
  by (simp add: pathSegments_def)

text \<open>One path for each of the four cases.\<close>

theorem invoice_path_rejections_witness:
  "InvoiceHandler stubRuntime sqlInvoiceQueries (request MethodGet ''/api/v1/health'') shopStore =
     ((400, Text ''Invalid invoice path''), shopStore) \<and>
   InvoiceHandler stubRuntime sqlInvoiceQueries (request MethodGet ''/api/v1/invoices/'') shopStore =
     ((400, Text ''Invalid invoice path''), shopStore) \<and>
   InvoiceHandler stubRuntime sqlInvoiceQueries (request MethodGet ''/api/v1/invoices/abc'') shopStore =
     ((400, Text ''Invalid invoice ID''), shopStore) \<and>
   InvoiceHandler stubRuntime sqlInvoiceQueries
       (request MethodDelete ''/api/v1/invoices/1/products/1/2'') shopStoreWithItem =
     ((404, Text ''Not found''), shopStoreWithItem)"
  using
    invoice_path_rejections [where r = "request MethodGet ''/api/v1/health''"
      and rt = stubRuntime and q = sqlInvoiceQueries and st = shopStore]
    invoice_path_rejections [where r = "request MethodGet ''/api/v1/invoices/''" and k = 2
      and rt = stubRuntime and q = sqlInvoiceQueries and st = shopStore]
    invoice_path_rejections [where r = "request MethodGet ''/api/v1/invoices/abc''" and k = 2
      and rt = stubRuntime and q = sqlInvoiceQueries and st = shopStore]
    invoice_path_rejections [where r = "request MethodDelete ''/api/v1/invoices/1/products/1/2''"
      and k = 2 and n = 1 and rt = stubRuntime and q = sqlInvoiceQueries and st = shopStoreWithItem]
  by (simp add: request_def pathSegments_invoices_1_products_1_2 pathSegments_invoices_abc
      pathSegments_invoices_slash pathSegments_health Atoi_abc Atoi_1)

end
